theory Spec2Isabelle
  imports Main
begin

section \<open>Python values, attribute access and exceptions\<close>

text \<open>
  The upstream events are Python objects whose attributes are read dynamically
  (\<^verbatim>\<open>event.text\<close>, \<^verbatim>\<open>getattr(item, 'status', 'unknown')\<close>). A value is
  \<^verbatim>\<open>None\<close>, a bool, an int, a str, a dict with string keys, or an object: the name of
  its class and its attributes in an association list. Strings are lists of characters
  with code points below 256.
\<close>

datatype pyval =
    VNone
  | VBool bool
  | VInt int
  | VStr string
  | VDict "(string \<times> pyval) list"
  | VObj string "(string \<times> pyval) list"

text \<open>
  The exceptions that the modelled code can meet: a missing attribute (class name and
  attribute name), a value that \<^verbatim>\<open>json.dumps\<close> cannot encode (class name), and a
  failure of a remote call, which carries its own description.
\<close>

datatype exn =
    AttributeError string string
  | TypeError string
  | ServiceError string

definition quoted :: "string \<Rightarrow> string" where
  "quoted s = [CHR 0x27] @ s @ [CHR 0x27]"

fun str_exn :: "exn \<Rightarrow> string" where
  "str_exn (AttributeError c a) = quoted c @ '' object has no attribute '' @ quoted a"
| "str_exn (TypeError c) = ''Object of type '' @ c @ '' is not JSON serializable''"
| "str_exn (ServiceError m) = m"

fun type_name :: "pyval \<Rightarrow> string" where
  "type_name VNone = ''NoneType''"
| "type_name (VBool b) = ''bool''"
| "type_name (VInt i) = ''int''"
| "type_name (VStr s) = ''str''"
| "type_name (VDict kvs) = ''dict''"
| "type_name (VObj c as) = c"

text \<open>
  Only objects carry the attributes that the code asks for (\<^verbatim>\<open>type\<close>, \<^verbatim>\<open>item\<close>,
  \<^verbatim>\<open>status\<close>, ...): none of these names is an attribute of \<^verbatim>\<open>None\<close>, of a bool, an
  int, a str or a dict.
\<close>

fun lookup_attr :: "pyval \<Rightarrow> string \<Rightarrow> pyval option" where
  "lookup_attr (VObj c as) n = map_of as n"
| "lookup_attr v n = None"

text \<open>\<^verbatim>\<open>obj.name\<close>: raises AttributeError when the attribute is absent.\<close>

definition attr :: "pyval \<Rightarrow> string \<Rightarrow> exn + pyval" where
  "attr v n = (case lookup_attr v n of
                 None \<Rightarrow> Inl (AttributeError (type_name v) n)
               | Some x \<Rightarrow> Inr x)"

text \<open>\<^verbatim>\<open>getattr(obj, name, default)\<close> and \<^verbatim>\<open>hasattr(obj, name)\<close>.\<close>

definition getattr :: "pyval \<Rightarrow> string \<Rightarrow> pyval \<Rightarrow> pyval" where
  "getattr v n d = (case lookup_attr v n of None \<Rightarrow> d | Some x \<Rightarrow> x)"

definition hasattr :: "pyval \<Rightarrow> string \<Rightarrow> bool" where
  "hasattr v n = (lookup_attr v n \<noteq> None)"

text \<open>Truth value of a value in \<^verbatim>\<open>if item:\<close>.\<close>

fun truthy :: "pyval \<Rightarrow> bool" where
  "truthy VNone = False"
| "truthy (VBool b) = b"
| "truthy (VInt i) = (i \<noteq> 0)"
| "truthy (VStr s) = (s \<noteq> [])"
| "truthy (VDict kvs) = (kvs \<noteq> [])"
| "truthy (VObj c as) = True"

section \<open>The event normalizer: \<^verbatim>\<open>process_stream_event\<close>\<close>

text \<open>
  \<^verbatim>\<open>ResponseStreamEventType\<close> is an enumeration of the Azure SDK whose members are
  strings; its declaration is not part of the repository, so the nine members that the
  code names are a parameter. An event type compares equal to a member when it is that
  string.
\<close>

record ResponseStreamEventType =
  RESPONSE_OUTPUT_TEXT_DONE :: string
  RESPONSE_OUTPUT_TEXT_DELTA :: string
  RESPONSE_OUTPUT_ITEM_ADDED :: string
  RESPONSE_OUTPUT_ITEM_DONE :: string
  RESPONSE_CREATED :: string
  RESPONSE_IN_PROGRESS :: string
  RESPONSE_COMPLETED :: string
  RESPONSE_FAILED :: string
  ERROR :: string

text \<open>An outward event, the dict \<^verbatim>\<open>{"event": name, "data": {...}}\<close>.\<close>

record sse_event =
  event :: string
  data :: "(string \<times> pyval) list"

text \<open>
  The kinds that have a branch of their own in \<^verbatim>\<open>process_stream_event\<close>: the nine
  members and the two literal content-part strings.
\<close>

definition known_kinds :: "ResponseStreamEventType \<Rightarrow> string list" where
  "known_kinds T =
     [RESPONSE_OUTPUT_TEXT_DONE T, RESPONSE_OUTPUT_TEXT_DELTA T,
      RESPONSE_OUTPUT_ITEM_ADDED T, RESPONSE_OUTPUT_ITEM_DONE T,
      RESPONSE_CREATED T, RESPONSE_IN_PROGRESS T, RESPONSE_COMPLETED T,
      RESPONSE_FAILED T,
      ''response.content_part.added'', ''response.content_part.done'',
      ERROR T]"

text \<open>
  The normalizer. Its result is \<open>Inl\<close> an exception, \<open>Inr None\<close> when the function returns
  \<^verbatim>\<open>None\<close>, or \<open>Inr (Some e)\<close>. The bodies of the longer branches come first, each
  under the name of the outward event it builds; \<open>process_stream_event\<close> is the
  \<^verbatim>\<open>if\<close>/\<^verbatim>\<open>elif\<close> chain over \<^verbatim>\<open>event.type\<close>, in the order of the source.
\<close>

text \<open>Text events: \<^verbatim>\<open>event.text\<close> and \<^verbatim>\<open>event.delta\<close> are read directly.\<close>

definition text_done :: "pyval \<Rightarrow> exn + sse_event option" where
  "text_done ev =
     (case attr ev ''text'' of
        Inl e \<Rightarrow> Inl e
      | Inr x \<Rightarrow> Inr (Some \<lparr>event = ''text_done'', data = [(''text'', x)]\<rparr>))"

definition text_delta :: "pyval \<Rightarrow> exn + sse_event option" where
  "text_delta ev =
     (case attr ev ''delta'' of
        Inl e \<Rightarrow> Inl e
      | Inr x \<Rightarrow> Inr (Some \<lparr>event = ''text_delta'', data = [(''delta'', x)]\<rparr>))"

text \<open>
  Item events. When \<^verbatim>\<open>item\<close> is false in \<^verbatim>\<open>if item:\<close> no branch returns and the
  function ends, returning \<^verbatim>\<open>None\<close>.
\<close>

definition item_added :: "pyval \<Rightarrow> exn + sse_event option" where
  "item_added ev =
     (let item = getattr ev ''item'' VNone in
      if truthy item then
        (let item_type = getattr item ''type'' (VStr ''unknown'') in
         if item_type = VStr ''workflow_action'' then
           Inr (Some \<lparr>event = ''action_started'',
             data = [(''action_id'', getattr item ''action_id'' (VStr ''unknown'')),
                     (''status'', getattr item ''status'' (VStr ''unknown'')),
                     (''previous_action_id'', getattr item ''previous_action_id'' VNone)]\<rparr>)
         else if item_type = VStr ''message'' then
           Inr (Some \<lparr>event = ''message_started'',
             data = [(''role'', getattr item ''role'' (VStr ''unknown'')),
                     (''id'', getattr item ''id'' (VStr ''N/A''))]\<rparr>)
         else
           Inr (Some \<lparr>event = ''item_added'', data = [(''type'', item_type)]\<rparr>))
      else Inr None)"

definition item_done :: "pyval \<Rightarrow> exn + sse_event option" where
  "item_done ev =
     (let item = getattr ev ''item'' VNone in
      if truthy item then
        (let item_type = getattr item ''type'' (VStr ''unknown'') in
         if item_type = VStr ''workflow_action'' then
           Inr (Some \<lparr>event = ''action_completed'',
             data = [(''action_id'', getattr item ''action_id'' (VStr ''unknown'')),
                     (''status'', getattr item ''status'' (VStr ''unknown'')),
                     (''previous_action_id'', getattr item ''previous_action_id'' VNone)]\<rparr>)
         else if item_type = VStr ''message'' then
           Inr (Some \<lparr>event = ''message_done'',
             data = [(''role'', getattr item ''role'' (VStr ''unknown'')),
                     (''id'', getattr item ''id'' (VStr ''N/A''))]\<rparr>)
         else
           Inr (Some \<lparr>event = ''item_done'', data = [(''type'', item_type)]\<rparr>))
      else Inr None)"

text \<open>
  Response-level events: \<^verbatim>\<open>event.response\<close> and \<^verbatim>\<open>event.response.id\<close> are read
  directly, \<^verbatim>\<open>usage\<close> and \<^verbatim>\<open>error\<close> behind \<^verbatim>\<open>hasattr\<close>. \<open>str\<close> is Python's
  \<^verbatim>\<open>str\<close> on values, a parameter because what it returns for an SDK object is decided
  by the object's class.
\<close>

definition response_created :: "pyval \<Rightarrow> exn + sse_event option" where
  "response_created ev =
     (case attr ev ''response'' of
        Inl e \<Rightarrow> Inl e
      | Inr r \<Rightarrow>
         (case attr r ''id'' of
            Inl e \<Rightarrow> Inl e
          | Inr i \<Rightarrow> Inr (Some \<lparr>event = ''response_status'',
              data = [(''status'', VStr ''created''), (''response_id'', i)]\<rparr>)))"

definition response_completed :: "pyval \<Rightarrow> exn + sse_event option" where
  "response_completed ev =
     (case attr ev ''response'' of
        Inl e \<Rightarrow> Inl e
      | Inr r \<Rightarrow>
         (let usage_data =
            (if hasattr r ''usage'' \<and> truthy (getattr r ''usage'' VNone) then
               (let usage = getattr r ''usage'' VNone in
                [(''input_tokens'', getattr usage ''input_tokens'' (VInt 0)),
                 (''output_tokens'', getattr usage ''output_tokens'' (VInt 0))])
             else [])
          in Inr (Some \<lparr>event = ''response_status'',
               data = [(''status'', VStr ''completed''), (''usage'', VDict usage_data)]\<rparr>)))"

definition response_failed :: "(pyval \<Rightarrow> string) \<Rightarrow> pyval \<Rightarrow> exn + sse_event option" where
  "response_failed str ev =
     (let error_msg = (if hasattr ev ''error'' then str (getattr ev ''error'' VNone) else [])
      in Inr (Some \<lparr>event = ''response_status'',
           data = [(''status'', VStr ''failed''), (''error'', VStr error_msg)]\<rparr>))"

text \<open>Content-part events.\<close>

definition content_part_added :: "pyval \<Rightarrow> exn + sse_event option" where
  "content_part_added ev =
     (let part = getattr ev ''part'' VNone;
          part_type = (if truthy part then getattr part ''type'' (VStr ''unknown'')
                       else VStr ''unknown'')
      in Inr (Some \<lparr>event = ''content_part_added'',
           data = [(''type'', part_type),
                   (''content_index'', getattr ev ''content_index'' (VInt 0))]\<rparr>))"

definition content_part_done :: "pyval \<Rightarrow> exn + sse_event option" where
  "content_part_done ev =
     (let part = getattr ev ''part'' VNone;
          part_type = (if truthy part then getattr part ''type'' (VStr ''unknown'')
                       else VStr ''unknown'')
      in Inr (Some \<lparr>event = ''content_part_done'',
           data = [(''type'', part_type),
                   (''content_index'', getattr ev ''content_index'' (VInt 0))]\<rparr>))"

text \<open>
  The dispatch. \<^verbatim>\<open>event.type\<close> is read directly, so an event without a type raises
  AttributeError at the first comparison.
\<close>

definition process_stream_event ::
  "ResponseStreamEventType \<Rightarrow> (pyval \<Rightarrow> string) \<Rightarrow> pyval \<Rightarrow> exn + sse_event option" where
  "process_stream_event T str ev =
    (case attr ev ''type'' of
       Inl e \<Rightarrow> Inl e
     | Inr t \<Rightarrow>
        if t = VStr (RESPONSE_OUTPUT_TEXT_DONE T) then text_done ev
        else if t = VStr (RESPONSE_OUTPUT_TEXT_DELTA T) then text_delta ev
        else if t = VStr (RESPONSE_OUTPUT_ITEM_ADDED T) then item_added ev
        else if t = VStr (RESPONSE_OUTPUT_ITEM_DONE T) then item_done ev
        else if t = VStr (RESPONSE_CREATED T) then response_created ev
        else if t = VStr (RESPONSE_IN_PROGRESS T) then
          Inr (Some \<lparr>event = ''response_status'', data = [(''status'', VStr ''in_progress'')]\<rparr>)
        else if t = VStr (RESPONSE_COMPLETED T) then response_completed ev
        else if t = VStr (RESPONSE_FAILED T) then response_failed str ev
        else if t = VStr ''response.content_part.added'' then content_part_added ev
        else if t = VStr ''response.content_part.done'' then content_part_done ev
        else if t = VStr (ERROR T) then
          Inr (Some \<lparr>event = ''error'', data = [(''message'', VStr (str ev))]\<rparr>)
        else
          Inr (Some \<lparr>event = ''unknown'', data = [(''type'', VStr (str t))]\<rparr>))"

text \<open>
  The values that the Azure SDK gives to the nine members: the event type strings of
  the Responses API. They are used to run the normalizer on concrete events.
\<close>

definition sdk_types :: ResponseStreamEventType where
  "sdk_types =
     \<lparr>RESPONSE_OUTPUT_TEXT_DONE = ''response.output_text.done'',
      RESPONSE_OUTPUT_TEXT_DELTA = ''response.output_text.delta'',
      RESPONSE_OUTPUT_ITEM_ADDED = ''response.output_item.added'',
      RESPONSE_OUTPUT_ITEM_DONE = ''response.output_item.done'',
      RESPONSE_CREATED = ''response.created'',
      RESPONSE_IN_PROGRESS = ''response.in_progress'',
      RESPONSE_COMPLETED = ''response.completed'',
      RESPONSE_FAILED = ''response.failed'',
      ERROR = ''error''\<rparr>"

text \<open>A stand-in for \<^verbatim>\<open>str\<close> on concrete inputs: a str is itself.\<close>

fun str_simple :: "pyval \<Rightarrow> string" where
  "str_simple (VStr s) = s"
| "str_simple VNone = ''None''"
| "str_simple v = type_name v"

text \<open>Reading a field of the data of a normalized event, when there is one.\<close>

definition field_of :: "exn + sse_event option \<Rightarrow> string \<Rightarrow> pyval option" where
  "field_of r k = (case r of Inr (Some e) \<Rightarrow> map_of (data e) k | _ \<Rightarrow> None)"

text \<open>The value of a lookup, or the default when the lookup finds nothing.\<close>

definition or_default :: "pyval option \<Rightarrow> pyval \<Rightarrow> pyval" where
  "or_default v d = (case v of None \<Rightarrow> d | Some x \<Rightarrow> x)"

section \<open>The session orchestrator: \<^verbatim>\<open>stream_agent_response\<close>\<close>

text \<open>
  The remote service, as the generator meets it during one request. Building the
  clients (lines 31 to 34: \<^verbatim>\<open>get_project_client()\<close>, entering the \<^verbatim>\<open>with\<close> block,
  \<^verbatim>\<open>get_openai_client()\<close>) succeeds or raises; \<^verbatim>\<open>conversations.create()\<close> returns
  a conversation id or raises; \<^verbatim>\<open>responses.create(...)\<close> raises or returns a stream,
  which hands out raw events and then either ends or raises;
  \<^verbatim>\<open>conversations.delete(...)\<close> returns or raises. Closing the client when the
  \<^verbatim>\<open>with\<close> block is left is taken to succeed.
\<close>

record upstream =
  open_client :: "exn option"
  conversations_create :: "exn + string"
  responses_create :: "string \<Rightarrow> string \<Rightarrow> exn + (pyval list \<times> exn option)"
  conversations_delete :: "string \<Rightarrow> exn option"

text \<open>The remote calls that a run makes, in order.\<close>

datatype call =
    ConversationsCreate
  | ResponsesCreate string string
  | ConversationsDelete string

fun is_delete :: "call \<Rightarrow> bool" where
  "is_delete (ConversationsDelete c) = True"
| "is_delete c = False"

text \<open>
  What a run of the generator does: the events it yields, the remote calls it makes,
  and the exception that leaves it, if any.
\<close>

record run =
  yielded :: "sse_event list"
  calls :: "call list"
  raised :: "exn option"

definition conversation_created :: "string \<Rightarrow> sse_event" where
  "conversation_created cid =
     \<lparr>event = ''conversation_created'', data = [(''conversation_id'', VStr cid)]\<rparr>"

definition conversation_deleted :: "string \<Rightarrow> sse_event" where
  "conversation_deleted cid =
     \<lparr>event = ''conversation_deleted'', data = [(''conversation_id'', VStr cid)]\<rparr>"

text \<open>The dict \<^verbatim>\<open>{"event": "error", "data": {"message": str(e)}}\<close>.\<close>

definition error_event :: "exn \<Rightarrow> sse_event" where
  "error_event e = \<lparr>event = ''error'', data = [(''message'', VStr (str_exn e))]\<rparr>"

text \<open>
  The loop \<^verbatim>\<open>for event in stream\<close> over the raw events that the stream hands out:
  the events yielded and the exception of \<^verbatim>\<open>process_stream_event\<close> that stops it.
  An event dict is never empty, so \<^verbatim>\<open>if sse_event:\<close> only filters \<^verbatim>\<open>None\<close>.
\<close>

fun stream_loop ::
  "ResponseStreamEventType \<Rightarrow> (pyval \<Rightarrow> string) \<Rightarrow> pyval list \<Rightarrow> sse_event list \<times> exn option" where
  "stream_loop T str [] = ([], None)"
| "stream_loop T str (ev # evs) =
     (case process_stream_event T str ev of
        Inl e \<Rightarrow> ([], Some e)
      | Inr None \<Rightarrow> stream_loop T str evs
      | Inr (Some s) \<Rightarrow> (case stream_loop T str evs of (out, r) \<Rightarrow> (s # out, r)))"

text \<open>
  The body of the \<^verbatim>\<open>try\<close> (lines 43 to 54): open the stream and run the loop. When
  the loop has consumed every raw event, the stream's own failure, if any, is raised.
  The result: the events yielded, the remote calls made, the exception raised.
\<close>

definition try_body ::
  "ResponseStreamEventType \<Rightarrow> (pyval \<Rightarrow> string) \<Rightarrow> upstream \<Rightarrow> string \<Rightarrow> string
     \<Rightarrow> sse_event list \<times> call list \<times> exn option" where
  "try_body T str up cid query =
     (case responses_create up cid query of
        Inl e \<Rightarrow> ([], [ResponsesCreate cid query], Some e)
      | Inr (raws, fail) \<Rightarrow>
         (case stream_loop T str raws of
            (out, Some e) \<Rightarrow> (out, [ResponsesCreate cid query], Some e)
          | (out, None) \<Rightarrow> (out, [ResponsesCreate cid query], fail)))"

text \<open>\<^verbatim>\<open>except Exception as e\<close> (lines 56 to 60): one error event.\<close>

definition except_clause :: "exn option \<Rightarrow> sse_event list" where
  "except_clause r = (case r of None \<Rightarrow> [] | Some e \<Rightarrow> [error_event e])"

text \<open>
  \<^verbatim>\<open>finally\<close> (lines 61 to 70): the deletion, and \<open>conversation_deleted\<close> when it
  returns; an exception of the deletion is passed over.
\<close>

definition finally_clause :: "upstream \<Rightarrow> string \<Rightarrow> sse_event list \<times> call list" where
  "finally_clause up cid =
     (case conversations_delete up cid of
        None \<Rightarrow> ([conversation_deleted cid], [ConversationsDelete cid])
      | Some e \<Rightarrow> ([], [ConversationsDelete cid]))"

text \<open>
  The generator. When building the clients or \<^verbatim>\<open>conversations.create()\<close> raises,
  nothing has been yielded and the exception leaves the generator: the \<^verbatim>\<open>try\<close> has
  not been entered. Otherwise \<^verbatim>\<open>try\<close>, \<^verbatim>\<open>except\<close> and \<^verbatim>\<open>finally\<close> run in turn and
  the generator ends.
\<close>

definition stream_agent_response ::
  "ResponseStreamEventType \<Rightarrow> (pyval \<Rightarrow> string) \<Rightarrow> upstream \<Rightarrow> string \<Rightarrow> run" where
  "stream_agent_response T str up query =
     (case open_client up of
        Some e \<Rightarrow> \<lparr>yielded = [], calls = [], raised = Some e\<rparr>
      | None \<Rightarrow>
         (case conversations_create up of
            Inl e \<Rightarrow> \<lparr>yielded = [], calls = [ConversationsCreate], raised = Some e\<rparr>
          | Inr cid \<Rightarrow>
             (case try_body T str up cid query of
                (out, cs, r) \<Rightarrow>
                  (case finally_clause up cid of
                     (out', cs') \<Rightarrow>
                       \<lparr>yielded = [conversation_created cid] @ out @ except_clause r @ out',
                        calls = [ConversationsCreate] @ cs @ cs',
                        raised = None\<rparr>))))"

section \<open>The transport: \<^verbatim>\<open>json.dumps\<close> and the frames\<close>

definition hex_digit :: "nat \<Rightarrow> char" where
  "hex_digit n = ''0123456789abcdef'' ! n"

fun show_nat :: "nat \<Rightarrow> string" where
  "show_nat n = (if n < 10 then [hex_digit n] else show_nat (n div 10) @ [hex_digit (n mod 10)])"

declare show_nat.simps [simp del]

definition show_int :: "int \<Rightarrow> string" where
  "show_int i = (if i < 0 then ''-'' @ show_nat (nat (- i)) else show_nat (nat i))"

text \<open>
  A character inside a JSON string, as \<^verbatim>\<open>json.dumps\<close> writes it with its default
  \<^verbatim>\<open>ensure_ascii\<close>: the quote and the backslash behind a backslash, the five short
  escapes, \<^verbatim>\<open>\u00XX\<close> for any other character outside the range from space to tilde.
\<close>

definition json_char :: "char \<Rightarrow> string" where
  "json_char c =
     (if c = CHR 0x22 then [CHR 0x5C, CHR 0x22]
      else if c = CHR 0x5C then [CHR 0x5C, CHR 0x5C]
      else if c = CHR 0x0A then [CHR 0x5C, CHR ''n'']
      else if c = CHR 0x0D then [CHR 0x5C, CHR ''r'']
      else if c = CHR 0x09 then [CHR 0x5C, CHR ''t'']
      else if c = CHR 0x08 then [CHR 0x5C, CHR ''b'']
      else if c = CHR 0x0C then [CHR 0x5C, CHR ''f'']
      else if (of_char c :: nat) < 32 \<or> 126 < (of_char c :: nat) then
        [CHR 0x5C, CHR ''u'', CHR ''0'', CHR ''0'',
         hex_digit (of_char c div 16), hex_digit (of_char c mod 16)]
      else [c])"

definition json_string :: "string \<Rightarrow> string" where
  "json_string s = [CHR 0x22] @ concat (map json_char s) @ [CHR 0x22]"

fun join :: "string \<Rightarrow> string list \<Rightarrow> string" where
  "join sep [] = []"
| "join sep [x] = x"
| "join sep (x # y # ys) = x @ sep @ join sep (y # ys)"

text \<open>
  \<^verbatim>\<open>json.dumps\<close>: an object of a class that is not a JSON type raises TypeError; a dict
  is written with its members in order.
\<close>

fun json_dumps :: "pyval \<Rightarrow> exn + string"
  and json_members :: "(string \<times> pyval) list \<Rightarrow> exn + string list" where
  "json_dumps VNone = Inr ''null''"
| "json_dumps (VBool b) = Inr (if b then ''true'' else ''false'')"
| "json_dumps (VInt i) = Inr (show_int i)"
| "json_dumps (VStr s) = Inr (json_string s)"
| "json_dumps (VObj c as) = Inl (TypeError c)"
| "json_dumps (VDict kvs) =
     (case json_members kvs of
        Inl e \<Rightarrow> Inl e
      | Inr ms \<Rightarrow> Inr (''{'' @ join '', '' ms @ ''}''))"
| "json_members [] = Inr []"
| "json_members ((k, v) # kvs) =
     (case json_dumps v of
        Inl e \<Rightarrow> Inl e
      | Inr s \<Rightarrow>
         (case json_members kvs of
            Inl e \<Rightarrow> Inl e
          | Inr ms \<Rightarrow> Inr ((json_string k @ '': '' @ s) # ms)))"

text \<open>The frame \<^verbatim>\<open>f"event: {event_type}\ndata: {event_data}\n\n"\<close> and the last frame.\<close>

definition frame :: "string \<Rightarrow> string \<Rightarrow> string" where
  "frame event_type event_data =
     ''event: '' @ event_type @ [CHR 0x0A] @ ''data: '' @ event_data @ [CHR 0x0A, CHR 0x0A]"

definition done_frame :: string where
  "done_frame = ''event: done'' @ [CHR 0x0A] @ ''data: {}'' @ [CHR 0x0A, CHR 0x0A]"

text \<open>Lines 67 to 69 on one event: \<open>Inl\<close> when \<^verbatim>\<open>json.dumps\<close> raises.\<close>

definition frame_of :: "sse_event \<Rightarrow> exn + string" where
  "frame_of ev =
     (case json_dumps (VDict (data ev)) of
        Inl e \<Rightarrow> Inl e
      | Inr event_data \<Rightarrow> Inr (frame (event ev) event_data))"

section \<open>The streaming bridge: \<^verbatim>\<open>event_generator\<close>\<close>

text \<open>
  \<^verbatim>\<open>run_sync_generator\<close> runs in a thread of its own and puts into the queue every
  event of the generator, then the completion signal \<^verbatim>\<open>None\<close>; when the generator
  raises, an error event and then the signal. The queue is first-in first-out with one
  producer and one consumer, so it is modelled by the list of what is put, in order.
\<close>

definition run_sync_generator ::
  "ResponseStreamEventType \<Rightarrow> (pyval \<Rightarrow> string) \<Rightarrow> upstream \<Rightarrow> string
     \<Rightarrow> sse_event option list" where
  "run_sync_generator T str up query =
     (let r = stream_agent_response T str up query in
      map Some (yielded r) @
      (case raised r of
         None \<Rightarrow> [None]
       | Some e \<Rightarrow> [Some (error_event e), None]))"

text \<open>
  The loop \<^verbatim>\<open>while True\<close> of the consumer on what the queue will hold: the frames it
  yields and the exception that ends it, if any. A \<^verbatim>\<open>get\<close> that times out is tried
  again, so on a queue that never receives the completion signal the loop never ends:
  the result is \<open>None\<close>.
\<close>

fun poll_loop :: "sse_event option list \<Rightarrow> (string list \<times> exn option) option" where
  "poll_loop [] = None"
| "poll_loop (None # q) = Some ([], None)"
| "poll_loop (Some ev # q) =
     (case frame_of ev of
        Inl e \<Rightarrow> Some ([], Some e)
      | Inr f \<Rightarrow>
         (case poll_loop q of
            None \<Rightarrow> None
          | Some (fs, r) \<Rightarrow> Some (f # fs, r)))"

text \<open>
  The response body: the frames of the loop, an error frame when the loop ended with an
  exception (lines 71 to 73), and the done frame. \<open>failure\<close> is an exception that
  leaves \<^verbatim>\<open>event_generator\<close> itself.
\<close>

record response =
  frames :: "string list"
  failure :: "exn option"

definition event_generator ::
  "ResponseStreamEventType \<Rightarrow> (pyval \<Rightarrow> string) \<Rightarrow> upstream \<Rightarrow> string \<Rightarrow> response option" where
  "event_generator T str up query =
     (case poll_loop (run_sync_generator T str up query) of
        None \<Rightarrow> None
      | Some (fs, None) \<Rightarrow> Some \<lparr>frames = fs @ [done_frame], failure = None\<rparr>
      | Some (fs, Some e) \<Rightarrow>
         (case json_dumps (VDict [(''message'', VStr (str_exn e))]) of
            Inl e' \<Rightarrow> Some \<lparr>frames = fs, failure = Some e'\<rparr>
          | Inr error_data \<Rightarrow>
             Some \<lparr>frames = fs @ [frame ''error'' error_data, done_frame], failure = None\<rparr>))"

section \<open>The outward vocabulary\<close>

definition normalizer_names :: "string list" where
  "normalizer_names =
     [''text_delta'', ''text_done'', ''action_started'', ''action_completed'',
      ''message_started'', ''message_done'', ''item_added'', ''item_done'',
      ''response_status'', ''content_part_added'', ''content_part_done'', ''error'',
      ''unknown'']"

definition vocabulary :: "string list" where
  "vocabulary = ''conversation_created'' # ''conversation_deleted'' # normalizer_names"

definition named_in :: "string list \<Rightarrow> exn + sse_event option \<Rightarrow> bool" where
  "named_in ns r = (case r of Inr (Some e) \<Rightarrow> event e \<in> set ns | _ \<Rightarrow> True)"

section \<open>The events put into the queue, and concrete services\<close>

text \<open>
  What the producer thread puts into the queue before the completion signal: the events
  of the generator and, when the generator raises, the error event of lines 45 and 46.
\<close>

definition produced ::
  "ResponseStreamEventType \<Rightarrow> (pyval \<Rightarrow> string) \<Rightarrow> upstream \<Rightarrow> string \<Rightarrow> sse_event list" where
  "produced T str up query =
     (let r = stream_agent_response T str up query in
      yielded r @ (case raised r of None \<Rightarrow> [] | Some e \<Rightarrow> [error_event e]))"

text \<open>Five remote services, used to run the model on concrete requests.\<close>

definition up_no_client :: upstream where
  "up_no_client =
     \<lparr>open_client = Some (ServiceError ''no credential''),
      conversations_create = Inr ''conv_1'',
      responses_create = (\<lambda>cid query. Inr ([], None)),
      conversations_delete = (\<lambda>cid. None)\<rparr>"

definition up_create_fails :: upstream where
  "up_create_fails =
     \<lparr>open_client = None,
      conversations_create = Inl (ServiceError ''401 Unauthorized''),
      responses_create = (\<lambda>cid query. Inr ([], None)),
      conversations_delete = (\<lambda>cid. None)\<rparr>"

definition up_stream_breaks :: upstream where
  "up_stream_breaks =
     \<lparr>open_client = None,
      conversations_create = Inr ''conv_1'',
      responses_create = (\<lambda>cid query.
         Inr ([VObj ''Ev'' [(''type'', VStr ''response.output_text.delta''),
                            (''delta'', VStr ''po'')]],
              Some (ServiceError ''connection reset''))),
      conversations_delete = (\<lambda>cid. None)\<rparr>"

definition up_delete_fails :: upstream where
  "up_delete_fails =
     \<lparr>open_client = None,
      conversations_create = Inr ''conv_1'',
      responses_create = (\<lambda>cid query.
         Inr ([VObj ''Ev'' [(''type'', VStr ''response.output_text.delta''),
                            (''delta'', VStr ''pong'')]],
              None)),
      conversations_delete = (\<lambda>cid. Some (ServiceError ''404 Not Found''))\<rparr>"

definition up_unserializable :: upstream where
  "up_unserializable =
     \<lparr>open_client = None,
      conversations_create = Inr ''conv_1'',
      responses_create = (\<lambda>cid query.
         Inr ([VObj ''Ev'' [(''type'', VStr ''response.output_item.added''),
                 (''item'', VObj ''Item'' [(''type'', VStr ''workflow_action''),
                                           (''action_id'', VStr ''a1''),
                                           (''status'', VObj ''Status'' [])])]],
              None)),
      conversations_delete = (\<lambda>cid. None)\<rparr>"

section \<open>Selecting a branch\<close>

text \<open>
  When the eleven known kinds are pairwise different, an event of the i-th kind reaches
  the i-th branch of the chain.
\<close>

lemma kinds_eq_iff:
  assumes "distinct (known_kinds T)" and "i < 11" and "j < 11"
  shows "(known_kinds T ! i = known_kinds T ! j) = (i = j)"
proof -
  have "length (known_kinds T) = 11" by (simp add: known_kinds_def)
  then show ?thesis
    using assms by (simp add: nth_eq_iff_index_eq)
qed

lemma select_text_done:
  assumes d: "distinct (known_kinds T)"
    and ty: "attr ev ''type'' = Inr (VStr (RESPONSE_OUTPUT_TEXT_DONE T))"
  shows "process_stream_event T str ev = text_done ev"
    using ty
    by (simp add: process_stream_event_def known_kinds_def)

lemma select_text_delta:
  assumes d: "distinct (known_kinds T)"
    and ty: "attr ev ''type'' = Inr (VStr (RESPONSE_OUTPUT_TEXT_DELTA T))"
  shows "process_stream_event T str ev = text_delta ev"
    using ty kinds_eq_iff [OF d, of 1 0]
    by (simp add: process_stream_event_def known_kinds_def)

lemma select_item_added:
  assumes d: "distinct (known_kinds T)"
    and ty: "attr ev ''type'' = Inr (VStr (RESPONSE_OUTPUT_ITEM_ADDED T))"
  shows "process_stream_event T str ev = item_added ev"
    using ty kinds_eq_iff [OF d, of 2 0] kinds_eq_iff [OF d, of 2 1]
    by (simp add: process_stream_event_def known_kinds_def)

lemma select_item_done:
  assumes d: "distinct (known_kinds T)"
    and ty: "attr ev ''type'' = Inr (VStr (RESPONSE_OUTPUT_ITEM_DONE T))"
  shows "process_stream_event T str ev = item_done ev"
    using ty kinds_eq_iff [OF d, of 3 0] kinds_eq_iff [OF d, of 3 1] kinds_eq_iff [OF d, of 3 2]
    by (simp add: process_stream_event_def known_kinds_def)

lemma select_response_created:
  assumes d: "distinct (known_kinds T)"
    and ty: "attr ev ''type'' = Inr (VStr (RESPONSE_CREATED T))"
  shows "process_stream_event T str ev = response_created ev"
    using ty kinds_eq_iff [OF d, of 4 0] kinds_eq_iff [OF d, of 4 1] kinds_eq_iff [OF d, of 4 2] kinds_eq_iff [OF d, of 4 3]
    by (simp add: process_stream_event_def known_kinds_def)

lemma select_in_progress:
  assumes d: "distinct (known_kinds T)"
    and ty: "attr ev ''type'' = Inr (VStr (RESPONSE_IN_PROGRESS T))"
  shows "process_stream_event T str ev = Inr (Some \<lparr>event = ''response_status'', data = [(''status'', VStr ''in_progress'')]\<rparr>)"
    using ty kinds_eq_iff [OF d, of 5 0] kinds_eq_iff [OF d, of 5 1] kinds_eq_iff [OF d, of 5 2] kinds_eq_iff [OF d, of 5 3] kinds_eq_iff [OF d, of 5 4]
    by (simp add: process_stream_event_def known_kinds_def)

lemma select_response_completed:
  assumes d: "distinct (known_kinds T)"
    and ty: "attr ev ''type'' = Inr (VStr (RESPONSE_COMPLETED T))"
  shows "process_stream_event T str ev = response_completed ev"
    using ty kinds_eq_iff [OF d, of 6 0] kinds_eq_iff [OF d, of 6 1] kinds_eq_iff [OF d, of 6 2] kinds_eq_iff [OF d, of 6 3] kinds_eq_iff [OF d, of 6 4] kinds_eq_iff [OF d, of 6 5]
    by (simp add: process_stream_event_def known_kinds_def)

lemma select_response_failed:
  assumes d: "distinct (known_kinds T)"
    and ty: "attr ev ''type'' = Inr (VStr (RESPONSE_FAILED T))"
  shows "process_stream_event T str ev = response_failed str ev"
    using ty kinds_eq_iff [OF d, of 7 0] kinds_eq_iff [OF d, of 7 1] kinds_eq_iff [OF d, of 7 2] kinds_eq_iff [OF d, of 7 3] kinds_eq_iff [OF d, of 7 4] kinds_eq_iff [OF d, of 7 5] kinds_eq_iff [OF d, of 7 6]
    by (simp add: process_stream_event_def known_kinds_def)

lemma select_content_part_added:
  assumes d: "distinct (known_kinds T)"
    and ty: "attr ev ''type'' = Inr (VStr (''response.content_part.added''))"
  shows "process_stream_event T str ev = content_part_added ev"
    using ty kinds_eq_iff [OF d, of 8 0] kinds_eq_iff [OF d, of 8 1] kinds_eq_iff [OF d, of 8 2] kinds_eq_iff [OF d, of 8 3] kinds_eq_iff [OF d, of 8 4] kinds_eq_iff [OF d, of 8 5] kinds_eq_iff [OF d, of 8 6] kinds_eq_iff [OF d, of 8 7]
    by (simp add: process_stream_event_def known_kinds_def)

lemma select_content_part_done:
  assumes d: "distinct (known_kinds T)"
    and ty: "attr ev ''type'' = Inr (VStr (''response.content_part.done''))"
  shows "process_stream_event T str ev = content_part_done ev"
    using ty kinds_eq_iff [OF d, of 9 0] kinds_eq_iff [OF d, of 9 1] kinds_eq_iff [OF d, of 9 2] kinds_eq_iff [OF d, of 9 3] kinds_eq_iff [OF d, of 9 4] kinds_eq_iff [OF d, of 9 5] kinds_eq_iff [OF d, of 9 6] kinds_eq_iff [OF d, of 9 7] kinds_eq_iff [OF d, of 9 8]
    by (simp add: process_stream_event_def known_kinds_def)

lemma select_error:
  assumes d: "distinct (known_kinds T)"
    and ty: "attr ev ''type'' = Inr (VStr (ERROR T))"
  shows "process_stream_event T str ev = Inr (Some \<lparr>event = ''error'', data = [(''message'', VStr (str ev))]\<rparr>)"
    using ty kinds_eq_iff [OF d, of 10 0] kinds_eq_iff [OF d, of 10 1] kinds_eq_iff [OF d, of 10 2] kinds_eq_iff [OF d, of 10 3] kinds_eq_iff [OF d, of 10 4] kinds_eq_iff [OF d, of 10 5] kinds_eq_iff [OF d, of 10 6] kinds_eq_iff [OF d, of 10 7] kinds_eq_iff [OF d, of 10 8] kinds_eq_iff [OF d, of 10 9]
    by (simp add: process_stream_event_def known_kinds_def)


section \<open>Properties of the normalizer\<close>

text \<open>
  C7. A raw event whose kind is a string outside the known mapping normalizes to the
  outward event named \<open>unknown\<close> whose data is \<open>{type: str(kind)}\<close>; the result is a
  value, not an exception.
\<close>

theorem unknown_kind_normalizes:
  assumes "attr ev ''type'' = Inr t"
    and "t \<notin> VStr ` set (known_kinds T)"
  shows "process_stream_event T str ev =
           Inr (Some \<lparr>event = ''unknown'', data = [(''type'', VStr (str t))]\<rparr>)"
  using assms by (simp add: process_stream_event_def known_kinds_def image_iff)

theorem unknown_kind_normalizes_witness:
  "attr (VObj ''Ev'' [(''type'', VStr ''response.queued'')]) ''type'' = Inr (VStr ''response.queued'')
   \<and> VStr ''response.queued'' \<notin> VStr ` set (known_kinds sdk_types)
   \<and> process_stream_event sdk_types str_simple (VObj ''Ev'' [(''type'', VStr ''response.queued'')]) =
       Inr (Some \<lparr>event = ''unknown'', data = [(''type'', VStr ''response.queued'')]\<rparr>)"
proof -
  have a: "attr (VObj ''Ev'' [(''type'', VStr ''response.queued'')]) ''type'' = Inr (VStr ''response.queued'')"
    by (simp add: attr_def)
  have b: "VStr ''response.queued'' \<notin> VStr ` set (known_kinds sdk_types)"
    by (simp add: known_kinds_def sdk_types_def image_iff)
  show ?thesis
    using a b unknown_kind_normalizes [OF a b, of str_simple] by simp
qed

lemma distinct_sdk_types: "distinct (known_kinds sdk_types)"
  by (simp add: known_kinds_def sdk_types_def)

text \<open>
  C6. An item-added or item-done event that carries no item sub-record (the attribute
  is absent, or it is \<^verbatim>\<open>None\<close>) produces no outward event: the normalizer
  returns \<^verbatim>\<open>None\<close>.
\<close>

theorem null_item_suppressed:
  assumes "distinct (known_kinds T)"
    and "attr ev ''type'' = Inr (VStr k)"
    and "k = RESPONSE_OUTPUT_ITEM_ADDED T \<or> k = RESPONSE_OUTPUT_ITEM_DONE T"
    and "lookup_attr ev ''item'' = None \<or> lookup_attr ev ''item'' = Some VNone"
  shows "process_stream_event T str ev = Inr None"
proof -
  have i: "getattr ev ''item'' VNone = VNone"
    using assms(4) by (auto simp: getattr_def)
  from assms(3) show ?thesis
  proof
    assume "k = RESPONSE_OUTPUT_ITEM_ADDED T"
    with assms(1,2) have "process_stream_event T str ev = item_added ev"
      by (simp add: select_item_added)
    then show ?thesis by (simp add: item_added_def i)
  next
    assume "k = RESPONSE_OUTPUT_ITEM_DONE T"
    with assms(1,2) have "process_stream_event T str ev = item_done ev"
      by (simp add: select_item_done)
    then show ?thesis by (simp add: item_done_def i)
  qed
qed

theorem null_item_suppressed_witness:
  "process_stream_event sdk_types str_simple
     (VObj ''Ev'' [(''type'', VStr ''response.output_item.added'')]) = Inr None
   \<and> process_stream_event sdk_types str_simple
     (VObj ''Ev'' [(''type'', VStr ''response.output_item.done''), (''item'', VNone)]) = Inr None"
proof -
  have a: "process_stream_event sdk_types str_simple
     (VObj ''Ev'' [(''type'', VStr ''response.output_item.added'')]) = Inr None"
    by (rule null_item_suppressed [OF distinct_sdk_types, of _ "''response.output_item.added''"])
       (simp_all add: attr_def sdk_types_def)
  have b: "process_stream_event sdk_types str_simple
     (VObj ''Ev'' [(''type'', VStr ''response.output_item.done''), (''item'', VNone)]) = Inr None"
    by (rule null_item_suppressed [OF distinct_sdk_types, of _ "''response.output_item.done''"])
       (simp_all add: attr_def sdk_types_def)
  from a b show ?thesis by simp
qed

text \<open>
  C10. A content-part added or done event whose part sub-record is absent (or
  \<^verbatim>\<open>None\<close>) is not suppressed: the normalizer emits \<open>content_part_added\<close> or
  \<open>content_part_done\<close> with type \<open>unknown\<close>, and with content_index 0 when the event
  has no content_index.
\<close>

theorem content_part_without_part:
  assumes "distinct (known_kinds T)"
    and "attr ev ''type'' = Inr (VStr k)"
    and "(k, name) = (''response.content_part.added'', ''content_part_added'')
         \<or> (k, name) = (''response.content_part.done'', ''content_part_done'')"
    and "lookup_attr ev ''part'' = None \<or> lookup_attr ev ''part'' = Some VNone"
  shows "process_stream_event T str ev =
           Inr (Some \<lparr>event = name,
                      data = [(''type'', VStr ''unknown''),
                              (''content_index'',
                               case lookup_attr ev ''content_index'' of
                                 None \<Rightarrow> VInt 0 | Some i \<Rightarrow> i)]\<rparr>)"
proof -
  have p: "getattr ev ''part'' VNone = VNone"
    using assms(4) by (auto simp: getattr_def)
  have c: "getattr ev ''content_index'' (VInt 0) =
           (case lookup_attr ev ''content_index'' of None \<Rightarrow> VInt 0 | Some i \<Rightarrow> i)"
    by (simp add: getattr_def)
  from assms(3) show ?thesis
  proof
    assume "(k, name) = (''response.content_part.added'', ''content_part_added'')"
    with assms(1,2) have "process_stream_event T str ev = content_part_added ev"
      and "name = ''content_part_added''"
      by (simp_all add: select_content_part_added)
    then show ?thesis by (simp add: content_part_added_def p c)
  next
    assume "(k, name) = (''response.content_part.done'', ''content_part_done'')"
    with assms(1,2) have "process_stream_event T str ev = content_part_done ev"
      and "name = ''content_part_done''"
      by (simp_all add: select_content_part_done)
    then show ?thesis by (simp add: content_part_done_def p c)
  qed
qed

theorem content_part_without_part_witness:
  "process_stream_event sdk_types str_simple
     (VObj ''Ev'' [(''type'', VStr ''response.content_part.added'')]) =
     Inr (Some \<lparr>event = ''content_part_added'',
                data = [(''type'', VStr ''unknown''), (''content_index'', VInt 0)]\<rparr>)
   \<and> process_stream_event sdk_types str_simple
     (VObj ''Ev'' [(''type'', VStr ''response.content_part.done''), (''part'', VNone),
                   (''content_index'', VInt 2)]) =
     Inr (Some \<lparr>event = ''content_part_done'',
                data = [(''type'', VStr ''unknown''), (''content_index'', VInt 2)]\<rparr>)"
proof -
  have a: "attr (VObj ''Ev'' [(''type'', VStr ''response.content_part.added'')]) ''type''
             = Inr (VStr ''response.content_part.added'')"
    by (simp add: attr_def)
  have b: "attr (VObj ''Ev'' [(''type'', VStr ''response.content_part.done''), (''part'', VNone),
                   (''content_index'', VInt 2)]) ''type''
             = Inr (VStr ''response.content_part.done'')"
    by (simp add: attr_def)
  show ?thesis
    using content_part_without_part [OF distinct_sdk_types a, of "''content_part_added''" str_simple]
      content_part_without_part [OF distinct_sdk_types b, of "''content_part_done''" str_simple]
    by simp
qed







lemma isl_branches:
  "isl (text_done ev) = (lookup_attr ev ''text'' = None)"
  "isl (text_delta ev) = (lookup_attr ev ''delta'' = None)"
  "isl (item_added ev) = False"
  "isl (item_done ev) = False"
  "isl (response_created ev) =
     (case lookup_attr ev ''response'' of None \<Rightarrow> True
      | Some r \<Rightarrow> lookup_attr r ''id'' = None)"
  "isl (response_completed ev) = (lookup_attr ev ''response'' = None)"
  "isl (response_failed str ev) = False"
  "isl (content_part_added ev) = False"
  "isl (content_part_done ev) = False"
  by (simp_all add: text_done_def text_delta_def item_added_def item_done_def
        response_created_def response_completed_def response_failed_def
        content_part_added_def content_part_done_def attr_def Let_def
        split: option.split)

text \<open>
  C3, as stated, fails: the text of a text-done event, the delta of a text-delta event
  and the id of the response of a response-created event are read directly, and the
  normalizer raises AttributeError when one of them is absent.
\<close>

theorem missing_text_raises_counterexample:
  "process_stream_event sdk_types str_simple
     (VObj ''ResponseTextDoneEvent'' [(''type'', VStr ''response.output_text.done'')]) =
     Inl (AttributeError ''ResponseTextDoneEvent'' ''text'')
   \<and> process_stream_event sdk_types str_simple
     (VObj ''ResponseTextDeltaEvent'' [(''type'', VStr ''response.output_text.delta'')]) =
     Inl (AttributeError ''ResponseTextDeltaEvent'' ''delta'')
   \<and> process_stream_event sdk_types str_simple
     (VObj ''ResponseCreatedEvent'' [(''type'', VStr ''response.created''),
                                    (''response'', VObj ''Response'' [])]) =
     Inl (AttributeError ''Response'' ''id'')"
  by (simp add: process_stream_event_def attr_def sdk_types_def text_done_def text_delta_def
        response_created_def)

text \<open>
  When the normalizer raises: exactly when a field that is read directly is absent.
\<close>

lemma raises_exactly:
  assumes d: "distinct (known_kinds T)"
    and ty: "attr ev ''type'' = Inr t"
  shows "isl (process_stream_event T str ev) \<longleftrightarrow>
           (t = VStr (RESPONSE_OUTPUT_TEXT_DONE T) \<and> lookup_attr ev ''text'' = None)
         \<or> (t = VStr (RESPONSE_OUTPUT_TEXT_DELTA T) \<and> lookup_attr ev ''delta'' = None)
         \<or> (t = VStr (RESPONSE_CREATED T) \<and>
              (case lookup_attr ev ''response'' of None \<Rightarrow> True
               | Some r \<Rightarrow> lookup_attr r ''id'' = None))
         \<or> (t = VStr (RESPONSE_COMPLETED T) \<and> lookup_attr ev ''response'' = None)"
proof (cases "t \<in> VStr ` set (known_kinds T)")
  case False
  then have "process_stream_event T str ev =
           Inr (Some \<lparr>event = ''unknown'', data = [(''type'', VStr (str t))]\<rparr>)"
    using ty by (simp add: process_stream_event_def known_kinds_def image_iff)
  moreover from False have "t \<noteq> VStr (RESPONSE_OUTPUT_TEXT_DONE T)"
    "t \<noteq> VStr (RESPONSE_OUTPUT_TEXT_DELTA T)" "t \<noteq> VStr (RESPONSE_CREATED T)"
    "t \<noteq> VStr (RESPONSE_COMPLETED T)"
    by (auto simp: known_kinds_def)
  ultimately show ?thesis by simp
next
  case True
  then consider (k0) "t = VStr (RESPONSE_OUTPUT_TEXT_DONE T)"
    | (k1) "t = VStr (RESPONSE_OUTPUT_TEXT_DELTA T)"
    | (k2) "t = VStr (RESPONSE_OUTPUT_ITEM_ADDED T)"
    | (k3) "t = VStr (RESPONSE_OUTPUT_ITEM_DONE T)"
    | (k4) "t = VStr (RESPONSE_CREATED T)"
    | (k5) "t = VStr (RESPONSE_IN_PROGRESS T)"
    | (k6) "t = VStr (RESPONSE_COMPLETED T)"
    | (k7) "t = VStr (RESPONSE_FAILED T)"
    | (k8) "t = VStr (''response.content_part.added'')"
    | (k9) "t = VStr (''response.content_part.done'')"
    | (k10) "t = VStr (ERROR T)"
    by (auto simp: known_kinds_def)
  then show ?thesis
  proof cases
    case k0
    with d ty have "process_stream_event T str ev = text_done ev"
      by (simp add: select_text_done)
    then show ?thesis
      using k0 kinds_eq_iff [OF d, of 0 0] kinds_eq_iff [OF d, of 0 1]
        kinds_eq_iff [OF d, of 0 4] kinds_eq_iff [OF d, of 0 6]
      by (simp add: known_kinds_def isl_branches)
  next
    case k1
    with d ty have "process_stream_event T str ev = text_delta ev"
      by (simp add: select_text_delta)
    then show ?thesis
      using k1 kinds_eq_iff [OF d, of 1 0] kinds_eq_iff [OF d, of 1 1]
        kinds_eq_iff [OF d, of 1 4] kinds_eq_iff [OF d, of 1 6]
      by (simp add: known_kinds_def isl_branches)
  next
    case k2
    with d ty have "process_stream_event T str ev = item_added ev"
      by (simp add: select_item_added)
    then show ?thesis
      using k2 kinds_eq_iff [OF d, of 2 0] kinds_eq_iff [OF d, of 2 1]
        kinds_eq_iff [OF d, of 2 4] kinds_eq_iff [OF d, of 2 6]
      by (simp add: known_kinds_def isl_branches)
  next
    case k3
    with d ty have "process_stream_event T str ev = item_done ev"
      by (simp add: select_item_done)
    then show ?thesis
      using k3 kinds_eq_iff [OF d, of 3 0] kinds_eq_iff [OF d, of 3 1]
        kinds_eq_iff [OF d, of 3 4] kinds_eq_iff [OF d, of 3 6]
      by (simp add: known_kinds_def isl_branches)
  next
    case k4
    with d ty have "process_stream_event T str ev = response_created ev"
      by (simp add: select_response_created)
    then show ?thesis
      using k4 kinds_eq_iff [OF d, of 4 0] kinds_eq_iff [OF d, of 4 1]
        kinds_eq_iff [OF d, of 4 4] kinds_eq_iff [OF d, of 4 6]
      by (simp add: known_kinds_def isl_branches)
  next
    case k5
    with d ty have "process_stream_event T str ev = Inr (Some \<lparr>event = ''response_status'', data = [(''status'', VStr ''in_progress'')]\<rparr>)"
      by (simp add: select_in_progress)
    then show ?thesis
      using k5 kinds_eq_iff [OF d, of 5 0] kinds_eq_iff [OF d, of 5 1]
        kinds_eq_iff [OF d, of 5 4] kinds_eq_iff [OF d, of 5 6]
      by (simp add: known_kinds_def isl_branches)
  next
    case k6
    with d ty have "process_stream_event T str ev = response_completed ev"
      by (simp add: select_response_completed)
    then show ?thesis
      using k6 kinds_eq_iff [OF d, of 6 0] kinds_eq_iff [OF d, of 6 1]
        kinds_eq_iff [OF d, of 6 4] kinds_eq_iff [OF d, of 6 6]
      by (simp add: known_kinds_def isl_branches)
  next
    case k7
    with d ty have "process_stream_event T str ev = response_failed str ev"
      by (simp add: select_response_failed)
    then show ?thesis
      using k7 kinds_eq_iff [OF d, of 7 0] kinds_eq_iff [OF d, of 7 1]
        kinds_eq_iff [OF d, of 7 4] kinds_eq_iff [OF d, of 7 6]
      by (simp add: known_kinds_def isl_branches)
  next
    case k8
    with d ty have "process_stream_event T str ev = content_part_added ev"
      by (simp add: select_content_part_added)
    then show ?thesis
      using k8 kinds_eq_iff [OF d, of 8 0] kinds_eq_iff [OF d, of 8 1]
        kinds_eq_iff [OF d, of 8 4] kinds_eq_iff [OF d, of 8 6]
      by (simp add: known_kinds_def isl_branches)
  next
    case k9
    with d ty have "process_stream_event T str ev = content_part_done ev"
      by (simp add: select_content_part_done)
    then show ?thesis
      using k9 kinds_eq_iff [OF d, of 9 0] kinds_eq_iff [OF d, of 9 1]
        kinds_eq_iff [OF d, of 9 4] kinds_eq_iff [OF d, of 9 6]
      by (simp add: known_kinds_def isl_branches)
  next
    case k10
    with d ty have "process_stream_event T str ev = Inr (Some \<lparr>event = ''error'', data = [(''message'', VStr (str ev))]\<rparr>)"
      by (simp add: select_error)
    then show ?thesis
      using k10 kinds_eq_iff [OF d, of 10 0] kinds_eq_iff [OF d, of 10 1]
        kinds_eq_iff [OF d, of 10 4] kinds_eq_iff [OF d, of 10 6]
      by (simp add: known_kinds_def isl_branches)
  qed
qed

lemma getattr_or_default: "getattr v n d = or_default (lookup_attr v n) d"
  by (simp add: getattr_def or_default_def)

lemma text_done_missing:
  "lookup_attr ev ''text'' = None \<Longrightarrow> text_done ev = Inl (AttributeError (type_name ev) ''text'')"
  by (simp add: text_done_def attr_def)

lemma text_delta_missing:
  "lookup_attr ev ''delta'' = None \<Longrightarrow> text_delta ev = Inl (AttributeError (type_name ev) ''delta'')"
  by (simp add: text_delta_def attr_def)

lemma response_created_missing:
  "lookup_attr ev ''response'' = None \<Longrightarrow>
     response_created ev = Inl (AttributeError (type_name ev) ''response'')"
  "lookup_attr ev ''response'' = Some r \<Longrightarrow> lookup_attr r ''id'' = None \<Longrightarrow>
     response_created ev = Inl (AttributeError (type_name r) ''id'')"
  by (simp_all add: response_created_def attr_def)

lemma response_completed_missing:
  "lookup_attr ev ''response'' = None \<Longrightarrow>
     response_completed ev = Inl (AttributeError (type_name ev) ''response'')"
  by (simp add: response_completed_def attr_def)

lemma item_added_fields:
  assumes "lookup_attr ev ''item'' = Some item" and "truthy item"
  shows "(or_default (lookup_attr item ''type'') (VStr ''unknown'') = VStr ''workflow_action'' \<longrightarrow>
            field_of (item_added ev) ''action_id''
              = Some (or_default (lookup_attr item ''action_id'') (VStr ''unknown''))
          \<and> field_of (item_added ev) ''status''
              = Some (or_default (lookup_attr item ''status'') (VStr ''unknown''))
          \<and> field_of (item_added ev) ''previous_action_id''
              = Some (or_default (lookup_attr item ''previous_action_id'') VNone))
       \<and> (or_default (lookup_attr item ''type'') (VStr ''unknown'') = VStr ''message'' \<longrightarrow>
            field_of (item_added ev) ''role''
              = Some (or_default (lookup_attr item ''role'') (VStr ''unknown''))
          \<and> field_of (item_added ev) ''id''
              = Some (or_default (lookup_attr item ''id'') (VStr ''N/A'')))
       \<and> (or_default (lookup_attr item ''type'') (VStr ''unknown'') \<noteq> VStr ''workflow_action''
            \<and> or_default (lookup_attr item ''type'') (VStr ''unknown'') \<noteq> VStr ''message'' \<longrightarrow>
            field_of (item_added ev) ''type''
              = Some (or_default (lookup_attr item ''type'') (VStr ''unknown'')))"
  using assms
  by (simp add: item_added_def getattr_or_default field_of_def Let_def) (simp add: or_default_def)

lemma item_done_fields:
  assumes "lookup_attr ev ''item'' = Some item" and "truthy item"
  shows "(or_default (lookup_attr item ''type'') (VStr ''unknown'') = VStr ''workflow_action'' \<longrightarrow>
            field_of (item_done ev) ''action_id''
              = Some (or_default (lookup_attr item ''action_id'') (VStr ''unknown''))
          \<and> field_of (item_done ev) ''status''
              = Some (or_default (lookup_attr item ''status'') (VStr ''unknown''))
          \<and> field_of (item_done ev) ''previous_action_id''
              = Some (or_default (lookup_attr item ''previous_action_id'') VNone))
       \<and> (or_default (lookup_attr item ''type'') (VStr ''unknown'') = VStr ''message'' \<longrightarrow>
            field_of (item_done ev) ''role''
              = Some (or_default (lookup_attr item ''role'') (VStr ''unknown''))
          \<and> field_of (item_done ev) ''id''
              = Some (or_default (lookup_attr item ''id'') (VStr ''N/A'')))
       \<and> (or_default (lookup_attr item ''type'') (VStr ''unknown'') \<noteq> VStr ''workflow_action''
            \<and> or_default (lookup_attr item ''type'') (VStr ''unknown'') \<noteq> VStr ''message'' \<longrightarrow>
            field_of (item_done ev) ''type''
              = Some (or_default (lookup_attr item ''type'') (VStr ''unknown'')))"
  using assms
  by (simp add: item_done_def getattr_or_default field_of_def Let_def) (simp add: or_default_def)

lemma response_completed_usage:
  assumes "lookup_attr ev ''response'' = Some r"
  shows "field_of (response_completed ev) ''usage'' =
           Some (VDict (case lookup_attr r ''usage'' of
                          None \<Rightarrow> []
                        | Some u \<Rightarrow>
                            if truthy u then
                              [(''input_tokens'', or_default (lookup_attr u ''input_tokens'') (VInt 0)),
                               (''output_tokens'', or_default (lookup_attr u ''output_tokens'') (VInt 0))]
                            else []))"
  using assms
  by (simp add: response_completed_def attr_def hasattr_def getattr_def or_default_def
        field_of_def Let_def split: option.split)

lemma response_failed_error:
  "field_of (response_failed str ev) ''error'' =
     Some (VStr (case lookup_attr ev ''error'' of None \<Rightarrow> [] | Some x \<Rightarrow> str x))"
  by (simp add: response_failed_def hasattr_def getattr_def field_of_def Let_def
        split: option.split)

lemma content_part_fields:
  "field_of (content_part_added ev) ''type'' =
     Some (case lookup_attr ev ''part'' of
             None \<Rightarrow> VStr ''unknown''
           | Some p \<Rightarrow> if truthy p then or_default (lookup_attr p ''type'') (VStr ''unknown'')
                       else VStr ''unknown'')"
  "field_of (content_part_added ev) ''content_index'' =
     Some (or_default (lookup_attr ev ''content_index'') (VInt 0))"
  "field_of (content_part_done ev) ''type'' =
     Some (case lookup_attr ev ''part'' of
             None \<Rightarrow> VStr ''unknown''
           | Some p \<Rightarrow> if truthy p then or_default (lookup_attr p ''type'') (VStr ''unknown'')
                       else VStr ''unknown'')"
  "field_of (content_part_done ev) ''content_index'' =
     Some (or_default (lookup_attr ev ''content_index'') (VInt 0))"
  by (simp_all add: content_part_added_def content_part_done_def getattr_def or_default_def
        field_of_def Let_def split: option.split)

lemma item_absent:
  assumes "\<not> truthy (or_default (lookup_attr ev ''item'') VNone)"
  shows "item_added ev = Inr None" and "item_done ev = Inr None"
  using assms by (simp_all add: item_added_def item_done_def getattr_or_default)

text \<open>
  C3, amended. For an event that has a type, the normalizer raises exactly when a
  directly read field is absent, and the exception is the AttributeError of that read:
  \<open>text\<close> of a text-done event, \<open>delta\<close> of a text-delta event, \<open>response\<close> or its
  \<open>id\<close> of a response-created event, \<open>response\<close> of a response-completed event. Every
  other lookup falls back to its default: on an item, type, action_id, status and role
  to \<open>unknown\<close>, previous_action_id to \<^verbatim>\<open>None\<close>, id to \<open>N/A\<close>; a missing or false
  item gives no event; a missing or false usage gives the empty usage, a missing usage
  counter 0; a missing error the empty string; a missing or false part, or a part
  without a type, the type \<open>unknown\<close>; a missing content_index 0.
\<close>

theorem lookups_raise_or_default:
  assumes d: "distinct (known_kinds T)"
    and ty: "attr ev ''type'' = Inr t"
  shows "(isl (process_stream_event T str ev) \<longleftrightarrow>
           (t = VStr (RESPONSE_OUTPUT_TEXT_DONE T) \<and> lookup_attr ev ''text'' = None)
         \<or> (t = VStr (RESPONSE_OUTPUT_TEXT_DELTA T) \<and> lookup_attr ev ''delta'' = None)
         \<or> (t = VStr (RESPONSE_CREATED T) \<and>
              (case lookup_attr ev ''response'' of None \<Rightarrow> True
               | Some r \<Rightarrow> lookup_attr r ''id'' = None))
         \<or> (t = VStr (RESPONSE_COMPLETED T) \<and> lookup_attr ev ''response'' = None))
   \<and> (t = VStr (RESPONSE_OUTPUT_TEXT_DONE T) \<and> lookup_attr ev ''text'' = None \<longrightarrow>
          process_stream_event T str ev = Inl (AttributeError (type_name ev) ''text''))
   \<and> (t = VStr (RESPONSE_OUTPUT_TEXT_DELTA T) \<and> lookup_attr ev ''delta'' = None \<longrightarrow>
          process_stream_event T str ev = Inl (AttributeError (type_name ev) ''delta''))
   \<and> (t = VStr (RESPONSE_CREATED T) \<and> lookup_attr ev ''response'' = None \<longrightarrow>
          process_stream_event T str ev = Inl (AttributeError (type_name ev) ''response''))
   \<and> (t = VStr (RESPONSE_CREATED T) \<and> lookup_attr ev ''response'' = Some r
          \<and> lookup_attr r ''id'' = None \<longrightarrow>
          process_stream_event T str ev = Inl (AttributeError (type_name r) ''id''))
   \<and> (t = VStr (RESPONSE_COMPLETED T) \<and> lookup_attr ev ''response'' = None \<longrightarrow>
          process_stream_event T str ev = Inl (AttributeError (type_name ev) ''response''))
   \<and> ((t = VStr (RESPONSE_OUTPUT_ITEM_ADDED T) \<or> t = VStr (RESPONSE_OUTPUT_ITEM_DONE T))
          \<and> lookup_attr ev ''item'' = Some item \<and> truthy item \<longrightarrow>
          (or_default (lookup_attr item ''type'') (VStr ''unknown'') = VStr ''workflow_action'' \<longrightarrow>
            field_of (process_stream_event T str ev) ''action_id''
              = Some (or_default (lookup_attr item ''action_id'') (VStr ''unknown''))
          \<and> field_of (process_stream_event T str ev) ''status''
              = Some (or_default (lookup_attr item ''status'') (VStr ''unknown''))
          \<and> field_of (process_stream_event T str ev) ''previous_action_id''
              = Some (or_default (lookup_attr item ''previous_action_id'') VNone))
       \<and> (or_default (lookup_attr item ''type'') (VStr ''unknown'') = VStr ''message'' \<longrightarrow>
            field_of (process_stream_event T str ev) ''role''
              = Some (or_default (lookup_attr item ''role'') (VStr ''unknown''))
          \<and> field_of (process_stream_event T str ev) ''id''
              = Some (or_default (lookup_attr item ''id'') (VStr ''N/A'')))
       \<and> (or_default (lookup_attr item ''type'') (VStr ''unknown'') \<noteq> VStr ''workflow_action''
            \<and> or_default (lookup_attr item ''type'') (VStr ''unknown'') \<noteq> VStr ''message'' \<longrightarrow>
            field_of (process_stream_event T str ev) ''type''
              = Some (or_default (lookup_attr item ''type'') (VStr ''unknown''))))
   \<and> (t = VStr (RESPONSE_COMPLETED T) \<and> lookup_attr ev ''response'' = Some r \<longrightarrow>
          field_of (process_stream_event T str ev) ''usage'' =
           Some (VDict (case lookup_attr r ''usage'' of
                          None \<Rightarrow> []
                        | Some u \<Rightarrow>
                            if truthy u then
                              [(''input_tokens'', or_default (lookup_attr u ''input_tokens'') (VInt 0)),
                               (''output_tokens'', or_default (lookup_attr u ''output_tokens'') (VInt 0))]
                            else [])))
   \<and> (t = VStr (RESPONSE_FAILED T) \<longrightarrow>
          field_of (process_stream_event T str ev) ''error'' =
            Some (VStr (case lookup_attr ev ''error'' of None \<Rightarrow> [] | Some x \<Rightarrow> str x)))
   \<and> (t = VStr ''response.content_part.added'' \<or> t = VStr ''response.content_part.done'' \<longrightarrow>
          field_of (process_stream_event T str ev) ''type'' =
            Some (case lookup_attr ev ''part'' of
             None \<Rightarrow> VStr ''unknown''
           | Some p \<Rightarrow> if truthy p then or_default (lookup_attr p ''type'') (VStr ''unknown'')
                       else VStr ''unknown'')
          \<and> field_of (process_stream_event T str ev) ''content_index'' =
            Some (or_default (lookup_attr ev ''content_index'') (VInt 0)))
   \<and> ((t = VStr (RESPONSE_OUTPUT_ITEM_ADDED T) \<or> t = VStr (RESPONSE_OUTPUT_ITEM_DONE T))
          \<and> \<not> truthy (or_default (lookup_attr ev ''item'') VNone) \<longrightarrow>
          process_stream_event T str ev = Inr None)"
proof -
  have c1: "isl (process_stream_event T str ev) \<longleftrightarrow>
           (t = VStr (RESPONSE_OUTPUT_TEXT_DONE T) \<and> lookup_attr ev ''text'' = None)
         \<or> (t = VStr (RESPONSE_OUTPUT_TEXT_DELTA T) \<and> lookup_attr ev ''delta'' = None)
         \<or> (t = VStr (RESPONSE_CREATED T) \<and>
              (case lookup_attr ev ''response'' of None \<Rightarrow> True
               | Some r \<Rightarrow> lookup_attr r ''id'' = None))
         \<or> (t = VStr (RESPONSE_COMPLETED T) \<and> lookup_attr ev ''response'' = None)"
    using d ty by (rule raises_exactly)
  have s_text_done: "process_stream_event T str ev = text_done ev" if "t = VStr (RESPONSE_OUTPUT_TEXT_DONE T)"
    using d ty that by (simp add: select_text_done)
  have s_text_delta: "process_stream_event T str ev = text_delta ev" if "t = VStr (RESPONSE_OUTPUT_TEXT_DELTA T)"
    using d ty that by (simp add: select_text_delta)
  have s_item_added: "process_stream_event T str ev = item_added ev" if "t = VStr (RESPONSE_OUTPUT_ITEM_ADDED T)"
    using d ty that by (simp add: select_item_added)
  have s_item_done: "process_stream_event T str ev = item_done ev" if "t = VStr (RESPONSE_OUTPUT_ITEM_DONE T)"
    using d ty that by (simp add: select_item_done)
  have s_created: "process_stream_event T str ev = response_created ev" if "t = VStr (RESPONSE_CREATED T)"
    using d ty that by (simp add: select_response_created)
  have s_completed: "process_stream_event T str ev = response_completed ev" if "t = VStr (RESPONSE_COMPLETED T)"
    using d ty that by (simp add: select_response_completed)
  have s_failed: "process_stream_event T str ev = response_failed str ev" if "t = VStr (RESPONSE_FAILED T)"
    using d ty that by (simp add: select_response_failed)
  have s_part_added: "process_stream_event T str ev = content_part_added ev" if "t = VStr ''response.content_part.added''"
    using d ty that by (simp add: select_content_part_added)
  have s_part_done: "process_stream_event T str ev = content_part_done ev" if "t = VStr ''response.content_part.done''"
    using d ty that by (simp add: select_content_part_done)
  have c2: "t = VStr (RESPONSE_OUTPUT_TEXT_DONE T) \<and> lookup_attr ev ''text'' = None \<longrightarrow>
          process_stream_event T str ev = Inl (AttributeError (type_name ev) ''text'')"
    using s_text_done by (simp add: text_done_missing)
  have c3: "t = VStr (RESPONSE_OUTPUT_TEXT_DELTA T) \<and> lookup_attr ev ''delta'' = None \<longrightarrow>
          process_stream_event T str ev = Inl (AttributeError (type_name ev) ''delta'')"
    using s_text_delta by (simp add: text_delta_missing)
  have c4: "t = VStr (RESPONSE_CREATED T) \<and> lookup_attr ev ''response'' = None \<longrightarrow>
          process_stream_event T str ev = Inl (AttributeError (type_name ev) ''response'')"
    using s_created by (simp add: response_created_missing)
  have c5: "t = VStr (RESPONSE_CREATED T) \<and> lookup_attr ev ''response'' = Some r
          \<and> lookup_attr r ''id'' = None \<longrightarrow>
          process_stream_event T str ev = Inl (AttributeError (type_name r) ''id'')"
    using s_created by (simp add: response_created_missing)
  have c6: "t = VStr (RESPONSE_COMPLETED T) \<and> lookup_attr ev ''response'' = None \<longrightarrow>
          process_stream_event T str ev = Inl (AttributeError (type_name ev) ''response'')"
    using s_completed by (simp add: response_completed_missing)
  have c7: "(t = VStr (RESPONSE_OUTPUT_ITEM_ADDED T) \<or> t = VStr (RESPONSE_OUTPUT_ITEM_DONE T))
          \<and> lookup_attr ev ''item'' = Some item \<and> truthy item \<longrightarrow>
          (or_default (lookup_attr item ''type'') (VStr ''unknown'') = VStr ''workflow_action'' \<longrightarrow>
            field_of (process_stream_event T str ev) ''action_id''
              = Some (or_default (lookup_attr item ''action_id'') (VStr ''unknown''))
          \<and> field_of (process_stream_event T str ev) ''status''
              = Some (or_default (lookup_attr item ''status'') (VStr ''unknown''))
          \<and> field_of (process_stream_event T str ev) ''previous_action_id''
              = Some (or_default (lookup_attr item ''previous_action_id'') VNone))
       \<and> (or_default (lookup_attr item ''type'') (VStr ''unknown'') = VStr ''message'' \<longrightarrow>
            field_of (process_stream_event T str ev) ''role''
              = Some (or_default (lookup_attr item ''role'') (VStr ''unknown''))
          \<and> field_of (process_stream_event T str ev) ''id''
              = Some (or_default (lookup_attr item ''id'') (VStr ''N/A'')))
       \<and> (or_default (lookup_attr item ''type'') (VStr ''unknown'') \<noteq> VStr ''workflow_action''
            \<and> or_default (lookup_attr item ''type'') (VStr ''unknown'') \<noteq> VStr ''message'' \<longrightarrow>
            field_of (process_stream_event T str ev) ''type''
              = Some (or_default (lookup_attr item ''type'') (VStr ''unknown'')))"
  proof (intro impI, elim conjE disjE)
    assume a: "t = VStr (RESPONSE_OUTPUT_ITEM_ADDED T)"
      and i: "lookup_attr ev ''item'' = Some item" "truthy item"
    show "(or_default (lookup_attr item ''type'') (VStr ''unknown'') = VStr ''workflow_action'' \<longrightarrow>
            field_of (process_stream_event T str ev) ''action_id''
              = Some (or_default (lookup_attr item ''action_id'') (VStr ''unknown''))
          \<and> field_of (process_stream_event T str ev) ''status''
              = Some (or_default (lookup_attr item ''status'') (VStr ''unknown''))
          \<and> field_of (process_stream_event T str ev) ''previous_action_id''
              = Some (or_default (lookup_attr item ''previous_action_id'') VNone))
       \<and> (or_default (lookup_attr item ''type'') (VStr ''unknown'') = VStr ''message'' \<longrightarrow>
            field_of (process_stream_event T str ev) ''role''
              = Some (or_default (lookup_attr item ''role'') (VStr ''unknown''))
          \<and> field_of (process_stream_event T str ev) ''id''
              = Some (or_default (lookup_attr item ''id'') (VStr ''N/A'')))
       \<and> (or_default (lookup_attr item ''type'') (VStr ''unknown'') \<noteq> VStr ''workflow_action''
            \<and> or_default (lookup_attr item ''type'') (VStr ''unknown'') \<noteq> VStr ''message'' \<longrightarrow>
            field_of (process_stream_event T str ev) ''type''
              = Some (or_default (lookup_attr item ''type'') (VStr ''unknown'')))"
      unfolding s_item_added [OF a] using i by (rule item_added_fields)
  next
    assume a: "t = VStr (RESPONSE_OUTPUT_ITEM_DONE T)"
      and i: "lookup_attr ev ''item'' = Some item" "truthy item"
    show "(or_default (lookup_attr item ''type'') (VStr ''unknown'') = VStr ''workflow_action'' \<longrightarrow>
            field_of (process_stream_event T str ev) ''action_id''
              = Some (or_default (lookup_attr item ''action_id'') (VStr ''unknown''))
          \<and> field_of (process_stream_event T str ev) ''status''
              = Some (or_default (lookup_attr item ''status'') (VStr ''unknown''))
          \<and> field_of (process_stream_event T str ev) ''previous_action_id''
              = Some (or_default (lookup_attr item ''previous_action_id'') VNone))
       \<and> (or_default (lookup_attr item ''type'') (VStr ''unknown'') = VStr ''message'' \<longrightarrow>
            field_of (process_stream_event T str ev) ''role''
              = Some (or_default (lookup_attr item ''role'') (VStr ''unknown''))
          \<and> field_of (process_stream_event T str ev) ''id''
              = Some (or_default (lookup_attr item ''id'') (VStr ''N/A'')))
       \<and> (or_default (lookup_attr item ''type'') (VStr ''unknown'') \<noteq> VStr ''workflow_action''
            \<and> or_default (lookup_attr item ''type'') (VStr ''unknown'') \<noteq> VStr ''message'' \<longrightarrow>
            field_of (process_stream_event T str ev) ''type''
              = Some (or_default (lookup_attr item ''type'') (VStr ''unknown'')))"
      unfolding s_item_done [OF a] using i by (rule item_done_fields)
  qed
  have c8: "t = VStr (RESPONSE_COMPLETED T) \<and> lookup_attr ev ''response'' = Some r \<longrightarrow>
          field_of (process_stream_event T str ev) ''usage'' =
           Some (VDict (case lookup_attr r ''usage'' of
                          None \<Rightarrow> []
                        | Some u \<Rightarrow>
                            if truthy u then
                              [(''input_tokens'', or_default (lookup_attr u ''input_tokens'') (VInt 0)),
                               (''output_tokens'', or_default (lookup_attr u ''output_tokens'') (VInt 0))]
                            else []))"
    using s_completed by (simp add: response_completed_usage)
  have c9: "t = VStr (RESPONSE_FAILED T) \<longrightarrow>
          field_of (process_stream_event T str ev) ''error'' =
            Some (VStr (case lookup_attr ev ''error'' of None \<Rightarrow> [] | Some x \<Rightarrow> str x))"
    using s_failed by (simp add: response_failed_error)
  have c10: "t = VStr ''response.content_part.added'' \<or> t = VStr ''response.content_part.done'' \<longrightarrow>
          field_of (process_stream_event T str ev) ''type'' =
            Some (case lookup_attr ev ''part'' of
             None \<Rightarrow> VStr ''unknown''
           | Some p \<Rightarrow> if truthy p then or_default (lookup_attr p ''type'') (VStr ''unknown'')
                       else VStr ''unknown'')
          \<and> field_of (process_stream_event T str ev) ''content_index'' =
            Some (or_default (lookup_attr ev ''content_index'') (VInt 0))"
    using s_part_added s_part_done by (auto simp: content_part_fields)
  have c11: "(t = VStr (RESPONSE_OUTPUT_ITEM_ADDED T) \<or> t = VStr (RESPONSE_OUTPUT_ITEM_DONE T))
          \<and> \<not> truthy (or_default (lookup_attr ev ''item'') VNone) \<longrightarrow>
          process_stream_event T str ev = Inr None"
    using s_item_added s_item_done by (auto simp: item_absent)
  show ?thesis
    by (intro conjI c1 c2 c3 c4 c5 c6 c7 c8 c9 c10 c11)
qed

theorem lookups_raise_or_default_witness:
  "process_stream_event sdk_types str_simple
       (VObj ''Ev'' [(''type'', VStr ''response.output_text.done'')])
     = Inl (AttributeError ''Ev'' ''text'')
   \<and> process_stream_event sdk_types str_simple
       (VObj ''Ev'' [(''type'', VStr ''response.created''), (''response'', VObj ''Response'' [])])
     = Inl (AttributeError ''Response'' ''id'')
   \<and> \<not> isl (process_stream_event sdk_types str_simple
       (VObj ''Ev'' [(''type'', VStr ''response.output_item.added''), (''item'', VObj ''Item'' [(''type'', VStr ''message'')])]))
   \<and> field_of (process_stream_event sdk_types str_simple
       (VObj ''Ev'' [(''type'', VStr ''response.output_item.added''), (''item'', VObj ''Item'' [(''type'', VStr ''message'')])])) ''role''
     = Some (VStr ''unknown'')
   \<and> field_of (process_stream_event sdk_types str_simple
       (VObj ''Ev'' [(''type'', VStr ''response.output_item.added''), (''item'', VObj ''Item'' [(''type'', VStr ''message'')])])) ''id''
     = Some (VStr ''N/A'')
   \<and> field_of (process_stream_event sdk_types str_simple
       (VObj ''Ev'' [(''type'', VStr ''response.completed''), (''response'', VObj ''Response'' [(''usage'', VObj ''Usage'' [(''input_tokens'', VInt 12)])])])) ''usage''
     = Some (VDict [(''input_tokens'', VInt 12), (''output_tokens'', VInt 0)])
   \<and> field_of (process_stream_event sdk_types str_simple
       (VObj ''Ev'' [(''type'', VStr ''response.failed'')])) ''error''
     = Some (VStr [])
   \<and> field_of (process_stream_event sdk_types str_simple
       (VObj ''Ev'' [(''type'', VStr ''response.content_part.added'')])) ''type''
     = Some (VStr ''unknown'')
   \<and> field_of (process_stream_event sdk_types str_simple
       (VObj ''Ev'' [(''type'', VStr ''response.content_part.added'')])) ''content_index''
     = Some (VInt 0)"
proof -
  have a1: "attr (VObj ''Ev'' [(''type'', VStr ''response.output_text.done'')]) ''type''
      = Inr (VStr ''response.output_text.done'')"
    by (simp add: attr_def)
  have w1: "process_stream_event sdk_types str_simple
       (VObj ''Ev'' [(''type'', VStr ''response.output_text.done'')])
     = Inl (AttributeError ''Ev'' ''text'')"
    using lookups_raise_or_default [OF distinct_sdk_types a1, where str = str_simple]
    by (simp add: sdk_types_def or_default_def)
  have a2: "attr (VObj ''Ev'' [(''type'', VStr ''response.created''), (''response'', VObj ''Response'' [])]) ''type''
      = Inr (VStr ''response.created'')"
    by (simp add: attr_def)
  have w2: "process_stream_event sdk_types str_simple
       (VObj ''Ev'' [(''type'', VStr ''response.created''), (''response'', VObj ''Response'' [])])
     = Inl (AttributeError ''Response'' ''id'')"
    using lookups_raise_or_default [OF distinct_sdk_types a2, where str = str_simple and r = "VObj ''Response'' []"]
    by (simp add: sdk_types_def or_default_def)
  have a3: "attr (VObj ''Ev'' [(''type'', VStr ''response.output_item.added''), (''item'', VObj ''Item'' [(''type'', VStr ''message'')])]) ''type''
      = Inr (VStr ''response.output_item.added'')"
    by (simp add: attr_def)
  have w3: "\<not> isl (process_stream_event sdk_types str_simple
       (VObj ''Ev'' [(''type'', VStr ''response.output_item.added''), (''item'', VObj ''Item'' [(''type'', VStr ''message'')])]))
     \<and> field_of (process_stream_event sdk_types str_simple
       (VObj ''Ev'' [(''type'', VStr ''response.output_item.added''), (''item'', VObj ''Item'' [(''type'', VStr ''message'')])])) ''role''
     = Some (VStr ''unknown'')
     \<and> field_of (process_stream_event sdk_types str_simple
       (VObj ''Ev'' [(''type'', VStr ''response.output_item.added''), (''item'', VObj ''Item'' [(''type'', VStr ''message'')])])) ''id''
     = Some (VStr ''N/A'')"
    using lookups_raise_or_default [OF distinct_sdk_types a3, where str = str_simple and item = "VObj ''Item'' [(''type'', VStr ''message'')]"]
    by (simp add: sdk_types_def or_default_def)
  have a4: "attr (VObj ''Ev'' [(''type'', VStr ''response.completed''), (''response'', VObj ''Response'' [(''usage'', VObj ''Usage'' [(''input_tokens'', VInt 12)])])]) ''type''
      = Inr (VStr ''response.completed'')"
    by (simp add: attr_def)
  have w4: "field_of (process_stream_event sdk_types str_simple
       (VObj ''Ev'' [(''type'', VStr ''response.completed''), (''response'', VObj ''Response'' [(''usage'', VObj ''Usage'' [(''input_tokens'', VInt 12)])])])) ''usage''
     = Some (VDict [(''input_tokens'', VInt 12), (''output_tokens'', VInt 0)])"
    using lookups_raise_or_default [OF distinct_sdk_types a4, where str = str_simple and r = "VObj ''Response'' [(''usage'', VObj ''Usage'' [(''input_tokens'', VInt 12)])]"]
    by (simp add: sdk_types_def or_default_def)
  have a5: "attr (VObj ''Ev'' [(''type'', VStr ''response.failed'')]) ''type''
      = Inr (VStr ''response.failed'')"
    by (simp add: attr_def)
  have w5: "field_of (process_stream_event sdk_types str_simple
       (VObj ''Ev'' [(''type'', VStr ''response.failed'')])) ''error''
     = Some (VStr [])"
    using lookups_raise_or_default [OF distinct_sdk_types a5, where str = str_simple]
    by (simp add: sdk_types_def or_default_def)
  have a6: "attr (VObj ''Ev'' [(''type'', VStr ''response.content_part.added'')]) ''type''
      = Inr (VStr ''response.content_part.added'')"
    by (simp add: attr_def)
  have w6: "field_of (process_stream_event sdk_types str_simple
       (VObj ''Ev'' [(''type'', VStr ''response.content_part.added'')])) ''type''
     = Some (VStr ''unknown'')
     \<and> field_of (process_stream_event sdk_types str_simple
       (VObj ''Ev'' [(''type'', VStr ''response.content_part.added'')])) ''content_index''
     = Some (VInt 0)"
    using lookups_raise_or_default [OF distinct_sdk_types a6, where str = str_simple]
    by (simp add: sdk_types_def or_default_def)
  from w1 w2 w3 w4 w5 w6 show ?thesis by simp
qed


section \<open>Names of the outward events\<close>

lemma names_mem:
  "''text_done'' \<in> set normalizer_names" "''text_delta'' \<in> set normalizer_names"
  "''action_started'' \<in> set normalizer_names" "''action_completed'' \<in> set normalizer_names"
  "''message_started'' \<in> set normalizer_names" "''message_done'' \<in> set normalizer_names"
  "''item_added'' \<in> set normalizer_names" "''item_done'' \<in> set normalizer_names"
  "''response_status'' \<in> set normalizer_names" "''content_part_added'' \<in> set normalizer_names"
  "''content_part_done'' \<in> set normalizer_names" "''error'' \<in> set normalizer_names"
  "''unknown'' \<in> set normalizer_names"
  by (simp_all add: normalizer_names_def)

lemma named_in_simps:
  "named_in ns (Inl x) = True"
  "named_in ns (Inr None) = True"
  "named_in ns (Inr (Some e)) = (event e \<in> set ns)"
  by (simp_all add: named_in_def)

lemma branches_named:
  "named_in normalizer_names (text_done ev)"
  "named_in normalizer_names (text_delta ev)"
  "named_in normalizer_names (item_added ev)"
  "named_in normalizer_names (item_done ev)"
  "named_in normalizer_names (response_created ev)"
  "named_in normalizer_names (response_completed ev)"
  "named_in normalizer_names (response_failed str ev)"
  "named_in normalizer_names (content_part_added ev)"
  "named_in normalizer_names (content_part_done ev)"
  by (simp_all add: text_done_def text_delta_def item_added_def item_done_def
        response_created_def response_completed_def response_failed_def
        content_part_added_def content_part_done_def Let_def named_in_simps names_mem
        split: sum.split)

lemma process_stream_event_named:
  "named_in normalizer_names (process_stream_event T str ev)"
  by (simp add: process_stream_event_def branches_named named_in_simps names_mem
        split: sum.split)

lemma stream_loop_names:
  "e \<in> set (fst (stream_loop T str raws)) \<Longrightarrow> event e \<in> set normalizer_names"
proof (induction raws)
  case Nil
  then show ?case by simp
next
  case (Cons ev evs)
  show ?case
  proof (cases "process_stream_event T str ev")
    case (Inl x)
    with Cons.prems show ?thesis by simp
  next
    case (Inr res)
    show ?thesis
    proof (cases res)
      case None
      with Inr Cons show ?thesis by simp
    next
      case (Some s)
      have "event s \<in> set normalizer_names"
        using process_stream_event_named [of T str ev] Inr Some by (simp add: named_in_simps)
      with Inr Some Cons show ?thesis by (auto split: prod.splits)
    qed
  qed
qed

lemma fst_try_body:
  "fst (try_body T str up cid q) =
     (case responses_create up cid q of
        Inl e \<Rightarrow> []
      | Inr (raws, fail) \<Rightarrow> fst (stream_loop T str raws))"
  by (simp add: try_body_def split: sum.split prod.split option.split)

lemma try_body_names:
  assumes "e \<in> set (fst (try_body T str up cid q))"
  shows "event e \<in> set normalizer_names"
proof (cases "responses_create up cid q")
  case (Inl x)
  with assms show ?thesis by (simp add: fst_try_body)
next
  case (Inr p)
  obtain raws fail where "p = (raws, fail)" by (cases p)
  with Inr assms have "e \<in> set (fst (stream_loop T str raws))"
    by (simp add: fst_try_body)
  then show ?thesis by (rule stream_loop_names)
qed

lemma error_event_name: "event (error_event e) = ''error''"
  by (simp add: error_event_def)

lemma except_clause_names:
  "e \<in> set (except_clause r) \<Longrightarrow> event e \<in> set normalizer_names"
  by (auto simp: except_clause_def error_event_name names_mem split: option.splits)

lemma normalizer_names_vocabulary: "n \<in> set normalizer_names \<Longrightarrow> n \<in> set vocabulary"
  by (simp add: vocabulary_def)

lemma yielded_created:
  assumes "open_client up = None" and "conversations_create up = Inr cid"
  shows "yielded (stream_agent_response T str up q) =
           conversation_created cid # fst (try_body T str up cid q)
             @ except_clause (snd (snd (try_body T str up cid q)))
             @ fst (finally_clause up cid)"
    and "calls (stream_agent_response T str up q) =
           ConversationsCreate # fst (snd (try_body T str up cid q))
             @ snd (finally_clause up cid)"
    and "raised (stream_agent_response T str up q) = None"
  using assms by (simp_all add: stream_agent_response_def split: prod.split)

lemma yielded_failed:
  assumes "open_client up = None" and "conversations_create up = Inl x"
  shows "stream_agent_response T str up q =
           \<lparr>yielded = [], calls = [ConversationsCreate], raised = Some x\<rparr>"
  using assms by (simp add: stream_agent_response_def)

lemma yielded_no_client:
  assumes "open_client up = Some x"
  shows "stream_agent_response T str up q = \<lparr>yielded = [], calls = [], raised = Some x\<rparr>"
  using assms by (simp add: stream_agent_response_def)

lemma finally_clause_names:
  "e \<in> set (fst (finally_clause up cid)) \<Longrightarrow> event e = ''conversation_deleted''"
  by (auto simp: finally_clause_def conversation_deleted_def split: option.splits)

lemma yielded_names:
  assumes "e \<in> set (yielded (stream_agent_response T str up q))"
  shows "event e \<in> set vocabulary"
proof (cases "open_client up")
  case (Some x)
  with assms show ?thesis by (simp add: yielded_no_client)
next
  case None
  show ?thesis
  proof (cases "conversations_create up")
    case (Inl x)
    with assms None show ?thesis by (simp add: yielded_failed)
  next
    case (Inr cid)
    from assms consider "e = conversation_created cid"
      | "e \<in> set (fst (try_body T str up cid q))"
      | "e \<in> set (except_clause (snd (snd (try_body T str up cid q))))"
      | "e \<in> set (fst (finally_clause up cid))"
      by (auto simp: yielded_created(1) [OF None Inr])
    then show ?thesis
    proof cases
      case 1
      then show ?thesis by (simp add: conversation_created_def vocabulary_def)
    next
      case 2
      then show ?thesis by (simp add: try_body_names normalizer_names_vocabulary)
    next
      case 3
      then show ?thesis by (simp add: except_clause_names normalizer_names_vocabulary)
    next
      case 4
      then show ?thesis by (simp add: finally_clause_names vocabulary_def)
    qed
  qed
qed


section \<open>Frames\<close>

lemma frame_neq_done:
  assumes "n \<in> set vocabulary"
  shows "frame n d \<noteq> done_frame"
  using assms
  by (auto simp: vocabulary_def normalizer_names_def frame_def done_frame_def)

lemma frame_of_neq_done:
  assumes "frame_of e = Inr f" and "event e \<in> set vocabulary"
  shows "f \<noteq> done_frame"
  using assms by (auto simp: frame_of_def frame_neq_done split: sum.splits)

lemma json_dumps_message:
  "json_dumps (VDict [(''message'', VStr s)]) =
     Inr (''{'' @ json_string ''message'' @ '': '' @ json_string s @ ''}'')"
  by simp

lemma frame_of_error_event:
  "frame_of (error_event e) =
     Inr (frame ''error'' (''{'' @ json_string ''message'' @ '': '' @ json_string (str_exn e) @ ''}''))"
  by (simp add: frame_of_def error_event_def)

section \<open>The consumer loop\<close>

lemma poll_loop_all_frames:
  assumes "map frame_of evs = map Inr fs"
  shows "poll_loop (map Some evs @ None # q) = Some (fs, None)"
  using assms
proof (induction evs arbitrary: fs)
  case Nil
  then show ?case by simp
next
  case (Cons e evs)
  then obtain f fs' where "fs = f # fs'" "frame_of e = Inr f" "map frame_of evs = map Inr fs'"
    by (cases fs) auto
  with Cons.IH [of fs'] show ?case by simp
qed

lemma poll_loop_stops:
  assumes "map frame_of evs = map Inr fs" and "frame_of ev = Inl x"
  shows "poll_loop (map Some evs @ Some ev # q) = Some (fs, Some x)"
  using assms(1)
proof (induction evs arbitrary: fs)
  case Nil
  with assms(2) show ?case by simp
next
  case (Cons e evs)
  then obtain f fs' where "fs = f # fs'" "frame_of e = Inr f" "map frame_of evs = map Inr fs'"
    by (cases fs) auto
  with Cons.IH [of fs'] show ?case by simp
qed

lemma poll_loop_returns:
  "\<exists>fs r. poll_loop (map Some evs @ None # q) = Some (fs, r)
      \<and> (\<forall>f\<in>set fs. \<exists>e\<in>set evs. frame_of e = Inr f)"
proof (induction evs)
  case Nil
  then show ?case by simp
next
  case (Cons e evs)
  then obtain fs r where ih: "poll_loop (map Some evs @ None # q) = Some (fs, r)"
    and fr: "\<forall>f\<in>set fs. \<exists>e\<in>set evs. frame_of e = Inr f"
    by blast
  show ?case
  proof (cases "frame_of e")
    case (Inl x)
    then show ?thesis by simp
  next
    case (Inr f)
    with ih fr show ?thesis by auto
  qed
qed


section \<open>The queue\<close>

lemma run_sync_generator_produced:
  "run_sync_generator T str up q = map Some (produced T str up q) @ [None]"
  by (simp add: run_sync_generator_def produced_def Let_def split: option.split)

lemma produced_names:
  assumes "e \<in> set (produced T str up q)"
  shows "event e \<in> set vocabulary"
proof -
  from assms consider "e \<in> set (yielded (stream_agent_response T str up q))"
    | x where "e = error_event x"
    by (auto simp: produced_def Let_def split: option.splits)
  then show ?thesis
  proof cases
    case 1
    then show ?thesis by (rule yielded_names)
  next
    case 2
    then show ?thesis
      by (simp add: error_event_name names_mem normalizer_names_vocabulary)
  qed
qed

lemma try_body_calls: "fst (snd (try_body T str up cid q)) = [ResponsesCreate cid q]"
  by (simp add: try_body_def split: sum.split prod.split option.split)

lemma finally_clause_calls: "snd (finally_clause up cid) = [ConversationsDelete cid]"
  by (simp add: finally_clause_def split: option.split)

section \<open>Properties of the orchestrator and of the bridge\<close>

lemma error_frame_neq_done: "frame ''error'' d \<noteq> done_frame"
  by (rule frame_neq_done) (simp add: names_mem normalizer_names_vocabulary)

text \<open>
  The consumer loop ends on the queue of any run, and none of its frames is the done
  frame: each one is the frame of a produced event, whose name is in the vocabulary.
\<close>

lemma poll_loop_queue:
  obtains fs r where "poll_loop (run_sync_generator T str up q) = Some (fs, r)"
    and "done_frame \<notin> set fs"
proof -
  obtain fs r where p: "poll_loop (run_sync_generator T str up q) = Some (fs, r)"
    and fr: "\<forall>f\<in>set fs. \<exists>e\<in>set (produced T str up q). frame_of e = Inr f"
    using poll_loop_returns [of "produced T str up q" "[]"]
    by (auto simp: run_sync_generator_produced)
  have "done_frame \<notin> set fs"
    using fr frame_of_neq_done produced_names by blast
  with p show ?thesis by (rule that)
qed

text \<open>What \<open>event_generator\<close> sends after the loop: the error frame, if any, and the done frame.\<close>

lemma event_generator_after_loop:
  assumes "poll_loop (run_sync_generator T str up q) = Some (fs, r)"
  shows "event_generator T str up q =
           Some \<lparr>frames =
                   (fs @ (case r of
                            None \<Rightarrow> []
                          | Some e \<Rightarrow> [frame ''error'' (''{'' @ json_string ''message'' @ '': ''
                                                          @ json_string (str_exn e) @ ''}'')]))
                   @ [done_frame],
                 failure = None\<rparr>"
  using assms by (simp add: event_generator_def split: option.split)

text \<open>
  C1. Whatever the remote service does (creation succeeds or fails, the stream ends or
  raises, the deletion succeeds or fails, a payload can be encoded or not), the response
  body exists, no exception leaves \<open>event_generator\<close>, the last frame is the done frame
  and no earlier frame is the done frame.
\<close>

theorem terminal_frame_once:
  "\<exists>fs. event_generator T str up q = Some \<lparr>frames = fs @ [done_frame], failure = None\<rparr>
        \<and> done_frame \<notin> set fs"
proof -
  obtain fs r where p: "poll_loop (run_sync_generator T str up q) = Some (fs, r)"
    and nd: "done_frame \<notin> set fs"
    by (rule poll_loop_queue)
  let ?tail = "case r of
                 None \<Rightarrow> []
               | Some e \<Rightarrow> [frame ''error'' (''{'' @ json_string ''message'' @ '': ''
                                               @ json_string (str_exn e) @ ''}'')]"
  have "done_frame \<notin> set ?tail"
    using error_frame_neq_done [THEN not_sym] by (cases r) auto
  with nd have "done_frame \<notin> set (fs @ ?tail)" by simp
  moreover have "event_generator T str up q =
      Some \<lparr>frames = (fs @ ?tail) @ [done_frame], failure = None\<rparr>"
    using p by (rule event_generator_after_loop)
  ultimately show ?thesis by blast
qed

text \<open>
  C2. When the conversation has been created, the run makes exactly one deletion call,
  for that conversation, whatever the stream does (also when it raises partway through);
  when the creation fails, or is not reached because the clients cannot be built, the
  run makes no deletion call.
\<close>

theorem deletion_attempts:
  "(open_client up = None \<and> conversations_create up = Inr cid \<longrightarrow>
      filter is_delete (calls (stream_agent_response T str up q)) = [ConversationsDelete cid])
   \<and> (open_client up = None \<and> conversations_create up = Inl e \<longrightarrow>
      filter is_delete (calls (stream_agent_response T str up q)) = [])
   \<and> (open_client up = Some e' \<longrightarrow>
      filter is_delete (calls (stream_agent_response T str up q)) = [])"
proof (intro conjI impI)
  assume "open_client up = None \<and> conversations_create up = Inr cid"
  then have "calls (stream_agent_response T str up q) =
      ConversationsCreate # fst (snd (try_body T str up cid q)) @ snd (finally_clause up cid)"
    by (simp add: yielded_created(2))
  then show "filter is_delete (calls (stream_agent_response T str up q)) = [ConversationsDelete cid]"
    by (simp add: try_body_calls finally_clause_calls)
next
  assume "open_client up = None \<and> conversations_create up = Inl e"
  then show "filter is_delete (calls (stream_agent_response T str up q)) = []"
    by (simp add: yielded_failed)
next
  assume "open_client up = Some e'"
  then show "filter is_delete (calls (stream_agent_response T str up q)) = []"
    by (simp add: yielded_no_client)
qed

text \<open>
  C9. When the creation is reached and fails with exception \<open>e\<close>, the queue receives exactly one
  event, an \<open>error\<close> event whose message is \<open>str(e)\<close>, and then the completion signal:
  no \<open>conversation_created\<close>, no \<open>conversation_deleted\<close>. The response body is the
  frame of that error event followed by the done frame.
\<close>

theorem creation_failure:
  assumes "open_client up = None" and "conversations_create up = Inl e"
  shows "run_sync_generator T str up q =
           [Some \<lparr>event = ''error'', data = [(''message'', VStr (str_exn e))]\<rparr>, None]
       \<and> event_generator T str up q =
           Some \<lparr>frames = [frame ''error'' (''{'' @ json_string ''message'' @ '': ''
                                             @ json_string (str_exn e) @ ''}''),
                           done_frame],
                 failure = None\<rparr>"
proof -
  have q: "run_sync_generator T str up q = [Some (error_event e), None]"
    using assms by (simp add: run_sync_generator_def yielded_failed)
  then show ?thesis
    by (simp add: event_generator_def frame_of_error_event) (simp add: error_event_def)
qed

text \<open>
  C8, amended. \<open>produced\<close> is the sequence of events that the producer thread puts
  into the queue. When every one of them can be written as a frame (its payload is
  accepted by \<^verbatim>\<open>json.dumps\<close>), the response body is exactly the frames of these
  events, one frame for each event, in the order of production, followed by the done
  frame. When \<open>ev\<close> is the first event whose payload is rejected, the response body is
  the frames of the events before \<open>ev\<close>, in order, then one error frame and the done
  frame: \<open>ev\<close> and the events after it are dropped.
\<close>

theorem bridge_preserves_order:
  "(map frame_of (produced T str up q) = map Inr fs \<longrightarrow>
      event_generator T str up q = Some \<lparr>frames = fs @ [done_frame], failure = None\<rparr>)
   \<and> (produced T str up q = evs @ ev # rest \<and> map frame_of evs = map Inr fs
        \<and> frame_of ev = Inl x \<longrightarrow>
      event_generator T str up q =
        Some \<lparr>frames = fs @ [frame ''error'' (''{'' @ json_string ''message'' @ '': ''
                                               @ json_string (str_exn x) @ ''}''),
                             done_frame],
              failure = None\<rparr>)"
proof (intro conjI impI)
  assume h: "map frame_of (produced T str up q) = map Inr fs"
  show "event_generator T str up q = Some \<lparr>frames = fs @ [done_frame], failure = None\<rparr>"
    using poll_loop_all_frames [OF h, of "[]"]
    by (simp add: event_generator_def run_sync_generator_produced)
next
  assume h: "produced T str up q = evs @ ev # rest \<and> map frame_of evs = map Inr fs
        \<and> frame_of ev = Inl x"
  then have "poll_loop (run_sync_generator T str up q) = Some (fs, Some x)"
    using poll_loop_stops [of evs fs ev x "map Some rest @ [None]"]
    by (simp add: run_sync_generator_produced)
  then show "event_generator T str up q =
        Some \<lparr>frames = fs @ [frame ''error'' (''{'' @ json_string ''message'' @ '': ''
                                               @ json_string (str_exn x) @ ''}''),
                             done_frame],
              failure = None\<rparr>"
    by (simp add: event_generator_def)
qed


lemma json_dumps_single:
  "json_dumps (VDict [(k, VStr s)]) = Inr (''{'' @ json_string k @ '': '' @ json_string s @ ''}'')"
  by simp

lemma try_body_delete_irrelevant:
  "try_body T str (up\<lparr>conversations_delete := d\<rparr>) cid q = try_body T str up cid q"
  by (simp add: try_body_def)

lemma conversation_deleted_not_normalizer:
  "''conversation_deleted'' \<notin> set normalizer_names"
  by (simp add: normalizer_names_def)

theorem deletion_attempts_witness:
  "open_client up_stream_breaks = None
   \<and> conversations_create up_stream_breaks = Inr ''conv_1''
   \<and> filter is_delete (calls (stream_agent_response sdk_types str_simple up_stream_breaks ''ping''))
       = [ConversationsDelete ''conv_1'']
   \<and> open_client up_create_fails = None
   \<and> conversations_create up_create_fails = Inl (ServiceError ''401 Unauthorized'')
   \<and> filter is_delete (calls (stream_agent_response sdk_types str_simple up_create_fails ''ping''))
       = []
   \<and> open_client up_no_client = Some (ServiceError ''no credential'')
   \<and> filter is_delete (calls (stream_agent_response sdk_types str_simple up_no_client ''ping''))
       = []"
  using deletion_attempts [where up = up_stream_breaks and cid = "''conv_1''"
      and T = sdk_types and str = str_simple and q = "''ping''"]
    deletion_attempts [where up = up_create_fails and e = "ServiceError ''401 Unauthorized''"
      and T = sdk_types and str = str_simple and q = "''ping''"]
    deletion_attempts [where up = up_no_client and e' = "ServiceError ''no credential''"
      and T = sdk_types and str = str_simple and q = "''ping''"]
  by (simp add: up_stream_breaks_def up_create_fails_def up_no_client_def)

theorem creation_failure_witness:
  "open_client up_create_fails = None
   \<and> conversations_create up_create_fails = Inl (ServiceError ''401 Unauthorized'')
   \<and> run_sync_generator sdk_types str_simple up_create_fails ''ping'' =
       [Some \<lparr>event = ''error'', data = [(''message'', VStr ''401 Unauthorized'')]\<rparr>, None]
   \<and> event_generator sdk_types str_simple up_create_fails ''ping'' =
       Some \<lparr>frames = [frame ''error'' (''{'' @ json_string ''message'' @ '': ''
                                         @ json_string ''401 Unauthorized'' @ ''}''),
                       done_frame],
             failure = None\<rparr>"
proof -
  have o: "open_client up_create_fails = None"
    by (simp add: up_create_fails_def)
  have h: "conversations_create up_create_fails = Inl (ServiceError ''401 Unauthorized'')"
    by (simp add: up_create_fails_def)
  show ?thesis
    using o h creation_failure [OF o h, of sdk_types str_simple "''ping''"] by simp
qed

text \<open>
  C5. When the conversation has been created and the deletion raises: no exception leaves the
  generator; the yielded events are those of the same run with a deletion that succeeds,
  less the final \<open>conversation_deleted\<close> event, so no error event stands for the failed
  deletion; no yielded event is named \<open>conversation_deleted\<close>; and the response body
  still ends with the done frame.
\<close>

theorem deletion_failure_swallowed:
  assumes o: "open_client up = None"
    and c: "conversations_create up = Inr cid"
    and d: "conversations_delete up cid = Some x"
  shows "raised (stream_agent_response T str up q) = None
       \<and> yielded (stream_agent_response T str (up\<lparr>conversations_delete := \<lambda>c. None\<rparr>) q) =
           yielded (stream_agent_response T str up q) @ [conversation_deleted cid]
       \<and> ''conversation_deleted'' \<notin> set (map event (yielded (stream_agent_response T str up q)))
       \<and> (\<exists>fs. event_generator T str up q =
                  Some \<lparr>frames = fs @ [done_frame], failure = None\<rparr>)"
proof -
  let ?body = "fst (try_body T str up cid q)"
  let ?exc = "except_clause (snd (snd (try_body T str up cid q)))"
  have f: "finally_clause up cid = ([], [ConversationsDelete cid])"
    using d by (simp add: finally_clause_def)
  have y: "yielded (stream_agent_response T str up q) = conversation_created cid # ?body @ ?exc"
    using yielded_created(1) [OF o c, of T str q] f by simp
  have o': "open_client (up\<lparr>conversations_delete := \<lambda>c. None\<rparr>) = None"
    using o by simp
  have c': "conversations_create (up\<lparr>conversations_delete := \<lambda>c. None\<rparr>) = Inr cid"
    using c by simp
  have y': "yielded (stream_agent_response T str (up\<lparr>conversations_delete := \<lambda>c. None\<rparr>) q) =
              conversation_created cid # ?body @ ?exc @ [conversation_deleted cid]"
    using yielded_created(1) [OF o' c', of T str q]
    by (simp add: try_body_delete_irrelevant finally_clause_def)
  have n: "event ev \<noteq> ''conversation_deleted''"
    if "ev \<in> set (yielded (stream_agent_response T str up q))" for ev
  proof -
    from that y consider "ev = conversation_created cid" | "ev \<in> set ?body" | "ev \<in> set ?exc"
      by auto
    then show ?thesis
    proof cases
      case 1
      then show ?thesis by (simp add: conversation_created_def)
    next
      case 2
      then have "event ev \<in> set normalizer_names" by (rule try_body_names)
      then show ?thesis using conversation_deleted_not_normalizer by auto
    next
      case 3
      then have "event ev \<in> set normalizer_names" by (rule except_clause_names)
      then show ?thesis using conversation_deleted_not_normalizer by auto
    qed
  qed
  have e: "\<exists>fs. event_generator T str up q = Some \<lparr>frames = fs @ [done_frame], failure = None\<rparr>"
  proof -
    obtain fs r where "poll_loop (run_sync_generator T str up q) = Some (fs, r)"
      by (rule poll_loop_queue)
    then show ?thesis
      using event_generator_after_loop by blast
  qed
  have n': "''conversation_deleted'' \<notin> set (map event (yielded (stream_agent_response T str up q)))"
  proof
    assume "''conversation_deleted'' \<in> set (map event (yielded (stream_agent_response T str up q)))"
    then obtain ev where "ev \<in> set (yielded (stream_agent_response T str up q))"
      and "event ev = ''conversation_deleted''"
      by auto
    with n show False by blast
  qed
  from yielded_created(3) [OF o c, of T str q] y y' n' e show ?thesis by simp
qed

theorem deletion_failure_swallowed_witness:
  "open_client up_delete_fails = None
   \<and> conversations_create up_delete_fails = Inr ''conv_1''
   \<and> conversations_delete up_delete_fails ''conv_1'' = Some (ServiceError ''404 Not Found'')
   \<and> raised (stream_agent_response sdk_types str_simple up_delete_fails ''ping'') = None
   \<and> yielded (stream_agent_response sdk_types str_simple
              (up_delete_fails\<lparr>conversations_delete := \<lambda>c. None\<rparr>) ''ping'') =
       yielded (stream_agent_response sdk_types str_simple up_delete_fails ''ping'')
         @ [conversation_deleted ''conv_1'']
   \<and> ''conversation_deleted'' \<notin>
       set (map event (yielded (stream_agent_response sdk_types str_simple up_delete_fails ''ping'')))
   \<and> (\<exists>fs. event_generator sdk_types str_simple up_delete_fails ''ping'' =
              Some \<lparr>frames = fs @ [done_frame], failure = None\<rparr>)"
proof -
  have c: "conversations_create up_delete_fails = Inr ''conv_1''"
    by (simp add: up_delete_fails_def)
  have d: "conversations_delete up_delete_fails ''conv_1'' = Some (ServiceError ''404 Not Found'')"
    by (simp add: up_delete_fails_def)
  have o: "open_client up_delete_fails = None"
    by (simp add: up_delete_fails_def)
  from o c d deletion_failure_swallowed [OF o c d, of sdk_types str_simple "''ping''"]
  show ?thesis by blast
qed

text \<open>
  C8, as stated, fails: the loop of the consumer is left at the first event whose
  payload \<^verbatim>\<open>json.dumps\<close> rejects (here the status of the item is an object). Three
  events are produced; only the first one reaches the response body, followed by an
  error frame and the done frame; the other two are dropped.
\<close>

theorem unserializable_payload_counterexample:
  "produced sdk_types str_simple up_unserializable ''ping'' =
     [conversation_created ''conv_1'',
      \<lparr>event = ''action_started'',
       data = [(''action_id'', VStr ''a1''), (''status'', VObj ''Status'' []),
               (''previous_action_id'', VNone)]\<rparr>,
      conversation_deleted ''conv_1'']
   \<and> poll_loop (run_sync_generator sdk_types str_simple up_unserializable ''ping'') =
       Some ([frame ''conversation_created''
                (''{'' @ json_string ''conversation_id'' @ '': '' @ json_string ''conv_1'' @ ''}'')],
             Some (TypeError ''Status''))
   \<and> event_generator sdk_types str_simple up_unserializable ''ping'' =
       Some \<lparr>frames =
               [frame ''conversation_created''
                  (''{'' @ json_string ''conversation_id'' @ '': '' @ json_string ''conv_1'' @ ''}''),
                frame ''error''
                  (''{'' @ json_string ''message'' @ '': ''
                     @ json_string ''Object of type Status is not JSON serializable'' @ ''}''),
                done_frame],
             failure = None\<rparr>"
proof -
  have p: "produced sdk_types str_simple up_unserializable ''ping'' =
     [conversation_created ''conv_1'',
      \<lparr>event = ''action_started'',
       data = [(''action_id'', VStr ''a1''), (''status'', VObj ''Status'' []),
               (''previous_action_id'', VNone)]\<rparr>,
      conversation_deleted ''conv_1'']"
    by (simp add: produced_def stream_agent_response_def try_body_def finally_clause_def
          except_clause_def up_unserializable_def process_stream_event_def attr_def
          sdk_types_def item_added_def getattr_def)
  have l: "poll_loop (run_sync_generator sdk_types str_simple up_unserializable ''ping'') =
       Some ([frame ''conversation_created''
                (''{'' @ json_string ''conversation_id'' @ '': '' @ json_string ''conv_1'' @ ''}'')],
             Some (TypeError ''Status''))"
    by (simp add: run_sync_generator_produced p frame_of_def conversation_created_def)
  from p l show ?thesis
    by (simp add: event_generator_def)
qed

theorem bridge_preserves_order_witness:
  "event_generator sdk_types str_simple up_stream_breaks ''ping'' =
       Some \<lparr>frames =
               [frame ''conversation_created''
                  (''{'' @ json_string ''conversation_id'' @ '': '' @ json_string ''conv_1'' @ ''}''),
                frame ''text_delta''
                  (''{'' @ json_string ''delta'' @ '': '' @ json_string ''po'' @ ''}''),
                frame ''error''
                  (''{'' @ json_string ''message'' @ '': '' @ json_string ''connection reset'' @ ''}''),
                frame ''conversation_deleted''
                  (''{'' @ json_string ''conversation_id'' @ '': '' @ json_string ''conv_1'' @ ''}'')]
               @ [done_frame],
             failure = None\<rparr>
   \<and> event_generator sdk_types str_simple up_unserializable ''ping'' =
       Some \<lparr>frames =
               [frame ''conversation_created''
                  (''{'' @ json_string ''conversation_id'' @ '': '' @ json_string ''conv_1'' @ ''}'')]
               @ [frame ''error''
                    (''{'' @ json_string ''message'' @ '': ''
                       @ json_string (str_exn (TypeError ''Status'')) @ ''}''),
                  done_frame],
             failure = None\<rparr>"
proof -
  have h: "map frame_of (produced sdk_types str_simple up_stream_breaks ''ping'') =
     map Inr
       [frame ''conversation_created''
          (''{'' @ json_string ''conversation_id'' @ '': '' @ json_string ''conv_1'' @ ''}''),
        frame ''text_delta''
          (''{'' @ json_string ''delta'' @ '': '' @ json_string ''po'' @ ''}''),
        frame ''error''
          (''{'' @ json_string ''message'' @ '': '' @ json_string ''connection reset'' @ ''}''),
        frame ''conversation_deleted''
          (''{'' @ json_string ''conversation_id'' @ '': '' @ json_string ''conv_1'' @ ''}'')]"
    by (simp add: produced_def stream_agent_response_def try_body_def finally_clause_def
          except_clause_def up_stream_breaks_def process_stream_event_def attr_def
          sdk_types_def text_delta_def frame_of_def error_event_def
          conversation_created_def conversation_deleted_def)
  have p: "produced sdk_types str_simple up_unserializable ''ping'' =
     [conversation_created ''conv_1''] @
      \<lparr>event = ''action_started'',
       data = [(''action_id'', VStr ''a1''), (''status'', VObj ''Status'' []),
               (''previous_action_id'', VNone)]\<rparr> #
      [conversation_deleted ''conv_1'']"
    by (simp add: produced_def stream_agent_response_def try_body_def finally_clause_def
          except_clause_def up_unserializable_def process_stream_event_def attr_def
          sdk_types_def item_added_def getattr_def)
  have f: "map frame_of [conversation_created ''conv_1''] =
     map Inr [frame ''conversation_created''
          (''{'' @ json_string ''conversation_id'' @ '': '' @ json_string ''conv_1'' @ ''}'')]"
    by (simp add: frame_of_def conversation_created_def)
  have x: "frame_of \<lparr>event = ''action_started'',
       data = [(''action_id'', VStr ''a1''), (''status'', VObj ''Status'' []),
               (''previous_action_id'', VNone)]\<rparr> = Inl (TypeError ''Status'')"
    by (simp add: frame_of_def)
  from h p f x
    bridge_preserves_order [where T = sdk_types and str = str_simple and up = up_stream_breaks
      and q = "''ping''"
      and fs = "[frame ''conversation_created''
          (''{'' @ json_string ''conversation_id'' @ '': '' @ json_string ''conv_1'' @ ''}''),
        frame ''text_delta''
          (''{'' @ json_string ''delta'' @ '': '' @ json_string ''po'' @ ''}''),
        frame ''error''
          (''{'' @ json_string ''message'' @ '': '' @ json_string ''connection reset'' @ ''}''),
        frame ''conversation_deleted''
          (''{'' @ json_string ''conversation_id'' @ '': '' @ json_string ''conv_1'' @ ''}'')]"]
    bridge_preserves_order [where T = sdk_types and str = str_simple and up = up_unserializable
      and q = "''ping''" and evs = "[conversation_created ''conv_1'']"
      and ev = "\<lparr>event = ''action_started'',
       data = [(''action_id'', VStr ''a1''), (''status'', VObj ''Status'' []),
               (''previous_action_id'', VNone)]\<rparr>"
      and rest = "[conversation_deleted ''conv_1'']"
      and x = "TypeError ''Status''"
      and fs = "[frame ''conversation_created''
          (''{'' @ json_string ''conversation_id'' @ '': '' @ json_string ''conv_1'' @ ''}'')]"]
  show ?thesis by blast
qed


end
